theory Spec2Isabelle
  imports Complex_Main "HOL-Library.Multiset" "HOL-Library.Sublist" "HOL-Library.AList"
begin

section \<open>Food rescue: route optimisation and confirmation workflow\<close>

text \<open>
  A shallow embedding of \<^verbatim>\<open>foodbank/services/route_optimizer.py\<close> and
  \<^verbatim>\<open>foodbank/services/confirmation_workflow.py\<close>.

  Modelling conventions.
  \<^item> A Python number is an \<^verbatim>\<open>int\<close>, a \<^verbatim>\<open>float\<close> or a \<^verbatim>\<open>Decimal\<close>
    (\<open>pynum\<close>). \<^verbatim>\<open>FoodDonation.quantity_pounds\<close> is a \<^verbatim>\<open>DecimalField\<close>: a row
    read from the database carries a \<^verbatim>\<open>Decimal\<close>, an instance built in memory
    whatever it was given. Arithmetic between a \<^verbatim>\<open>float\<close> and a \<^verbatim>\<open>Decimal\<close>
    raises \<^verbatim>\<open>TypeError\<close>, and so does the model. The value of a \<^verbatim>\<open>float\<close> or
    \<^verbatim>\<open>Decimal\<close> is a \<open>real\<close> and the arithmetic on values is exact: the
    rounding of the two formats is not modelled.
  \<^item> A \<^verbatim>\<open>date\<close> is a day number, a \<^verbatim>\<open>datetime\<close> a number of minutes
    (day \<open>d\<close> starts at minute \<open>1440 * d\<close>); \<^verbatim>\<open>timezone.now()\<close> is a parameter.
  \<^item> \<^verbatim>\<open>geopy.distance.geodesic(a, b).miles\<close> is a parameter \<open>geodesic\<close>; it
    returns the distance or the error that geopy raises (\<^verbatim>\<open>ValueError\<close> for a
    latitude outside \<open>[-90, 90]\<close>).
  \<^item> Django model instances are records carrying their primary key; Python
    compares instances by primary key, the model by record equality (the same
    for rows read from one database state).
  \<^item> A Python \<^verbatim>\<open>dict\<close> whose iteration order is observed is an association
    list in insertion order (\<open>AList.update\<close> keeps the place of a known key and
    appends a new one, as the dict does).
  \<^item> Every \<^verbatim>\<open>raise\<close> the modelled code can reach is a value \<open>Inl e\<close>.
\<close>

subsection \<open>Data model\<close>

type_synonym date = int
type_synonym datetime = int
type_synonym location = "real \<times> real"

datatype py_error =
    ValueError | KeyError | ZeroDivisionError | TypeError | InvalidOperation
  | AttributeError | DatabaseError | DoesNotExist | MultipleObjectsReturned

datatype pynum = PyInt int | PyFloat real | PyDecimal real

record region =
  center_latitude :: real
  center_longitude :: real
  truck_capacity_pounds :: nat

record food_bank =
  bank_id :: nat
  bank_latitude :: real
  bank_longitude :: real
  daily_average_need_pounds :: nat
  storage_capacity_pounds :: nat
  can_self_pickup :: bool
  bank_is_active :: bool
  bank_email :: string

record grocery_store =
  store_id :: nat
  store_latitude :: real
  store_longitude :: real
  store_email :: string

record food_donation =
  donation_id :: nat
  donation_store :: grocery_store
  quantity_pounds :: pynum
  expiration_date :: "date option"
  sell_by_date :: "date option"

text \<open>The dictionaries built for the stops of a plan. The key
  \<^verbatim>\<open>'estimated_arrival'\<close> is absent until \<^verbatim>\<open>_create_route_plan\<close> sets it.\<close>

record pickup_info =
  store :: grocery_store
  pickup_donations :: "food_donation list"
  arrival_time :: datetime
  pickup_duration :: int
  pickup_total_weight :: pynum
  pickup_estimated_arrival :: "datetime option"

record delivery_info =
  food_bank :: food_bank
  delivery_donations :: "food_donation list"
  travel_time :: int
  delivery_duration :: int
  delivery_total_weight :: pynum
  delivery_estimated_arrival :: "datetime option"

record route_plan =
  target_date :: date
  pickup_sequence :: "pickup_info list"
  delivery_sequence :: "delivery_info list"
  total_weight_pounds :: pynum
  total_duration_minutes :: int
  estimated_completion_time :: datetime
  within_capacity :: bool
  within_time_limit :: bool
  efficiency_score :: pynum

subsection \<open>Numbers and time\<close>

text \<open>Sequencing of steps that may raise: the first error ends the computation.\<close>

definition bind_err :: "'e + 'a \<Rightarrow> ('a \<Rightarrow> 'e + 'b) \<Rightarrow> 'e + 'b" where
  "bind_err m f = (case m of Inl e \<Rightarrow> Inl e | Inr x \<Rightarrow> f x)"

fun py_val :: "pynum \<Rightarrow> real" where
  "py_val (PyInt i) = real_of_int i"
| "py_val (PyFloat x) = x"
| "py_val (PyDecimal x) = x"

fun is_decimal :: "pynum \<Rightarrow> bool" where
  "is_decimal (PyDecimal x) = True"
| "is_decimal n = False"

fun is_float :: "pynum \<Rightarrow> bool" where
  "is_float (PyFloat x) = True"
| "is_float n = False"

text \<open>The binary operators \<^verbatim>\<open>+\<close>, \<^verbatim>\<open>-\<close> and \<^verbatim>\<open>*\<close>: two ints give an int, a
  \<^verbatim>\<open>Decimal\<close> with an int or a \<^verbatim>\<open>Decimal\<close> gives a \<^verbatim>\<open>Decimal\<close>, a float with
  an int or a float gives a float, and a float with a \<^verbatim>\<open>Decimal\<close> raises
  \<^verbatim>\<open>TypeError\<close>.\<close>

definition py_binop ::
  "(int \<Rightarrow> int \<Rightarrow> int) \<Rightarrow> (real \<Rightarrow> real \<Rightarrow> real) \<Rightarrow> pynum \<Rightarrow> pynum \<Rightarrow> py_error + pynum"
  where
  "py_binop fi fr a b =
     (case (a, b) of
        (PyInt x, PyInt y) \<Rightarrow> Inr (PyInt (fi x y))
      | _ \<Rightarrow>
          if (is_float a \<and> is_decimal b) \<or> (is_decimal a \<and> is_float b) then Inl TypeError
          else if is_decimal a \<or> is_decimal b then Inr (PyDecimal (fr (py_val a) (py_val b)))
          else Inr (PyFloat (fr (py_val a) (py_val b))))"

definition py_add :: "pynum \<Rightarrow> pynum \<Rightarrow> py_error + pynum" where
  "py_add = py_binop (+) (+)"

definition py_sub :: "pynum \<Rightarrow> pynum \<Rightarrow> py_error + pynum" where
  "py_sub = py_binop (-) (-)"

definition py_mul :: "pynum \<Rightarrow> pynum \<Rightarrow> py_error + pynum" where
  "py_mul = py_binop (*) (*)"

text \<open>True division \<^verbatim>\<open>/\<close>: two ints give a float. A divisor of zero raises
  \<^verbatim>\<open>ZeroDivisionError\<close> (for a \<^verbatim>\<open>Decimal\<close> quotient its subclass
  \<^verbatim>\<open>decimal.DivisionByZero\<close>), except that \<open>0 / 0\<close> with a \<^verbatim>\<open>Decimal\<close> raises
  \<^verbatim>\<open>decimal.InvalidOperation\<close>.\<close>

definition py_truediv :: "pynum \<Rightarrow> pynum \<Rightarrow> py_error + pynum" where
  "py_truediv a b =
     (if (is_float a \<and> is_decimal b) \<or> (is_decimal a \<and> is_float b) then Inl TypeError
      else if is_decimal a \<or> is_decimal b then
        (if py_val b = 0
         then (if py_val a = 0 then Inl InvalidOperation else Inl ZeroDivisionError)
         else Inr (PyDecimal (py_val a / py_val b)))
      else if py_val b = 0 then Inl ZeroDivisionError
      else Inr (PyFloat (py_val a / py_val b)))"

text \<open>Comparison is defined between all three kinds of number.\<close>

definition py_less :: "pynum \<Rightarrow> pynum \<Rightarrow> bool" where
  "py_less a b = (py_val a < py_val b)"

text \<open>\<^verbatim>\<open>min(100, x)\<close> is \<open>x\<close> if \<open>x < 100\<close> and the int \<open>100\<close> otherwise.\<close>

definition py_min100 :: "pynum \<Rightarrow> pynum" where
  "py_min100 x = (if py_less x (PyInt 100) then x else PyInt 100)"

text \<open>\<^verbatim>\<open>sum(...)\<close> starts from the int 0 and adds from left to right.\<close>

fun py_sum_from :: "pynum \<Rightarrow> pynum list \<Rightarrow> py_error + pynum" where
  "py_sum_from acc [] = Inr acc"
| "py_sum_from acc (x # xs) =
     (case py_add acc x of Inl e \<Rightarrow> Inl e | Inr acc' \<Rightarrow> py_sum_from acc' xs)"

definition py_sum :: "pynum list \<Rightarrow> py_error + pynum" where
  "py_sum xs = py_sum_from (PyInt 0) xs"

text \<open>Python's \<^verbatim>\<open>int(x)\<close> truncates towards zero.\<close>

definition py_int :: "real \<Rightarrow> int" where
  "py_int x = (if 0 \<le> x then \<lfloor>x\<rfloor> else \<lceil>x\<rceil>)"

fun py_int_of :: "pynum \<Rightarrow> int" where
  "py_int_of (PyInt i) = i"
| "py_int_of (PyFloat x) = py_int x"
| "py_int_of (PyDecimal x) = py_int x"

text \<open>\<^verbatim>\<open>round(x, 1)\<close>: to one decimal place, a tie going to the even digit.\<close>

definition round_half_even :: "real \<Rightarrow> int" where
  "round_half_even x =
     (if x - real_of_int \<lfloor>x\<rfloor> < 1 / 2 then \<lfloor>x\<rfloor>
      else if x - real_of_int \<lfloor>x\<rfloor> > 1 / 2 then \<lfloor>x\<rfloor> + 1
      else if even \<lfloor>x\<rfloor> then \<lfloor>x\<rfloor> else \<lfloor>x\<rfloor> + 1)"

fun py_round1 :: "pynum \<Rightarrow> pynum" where
  "py_round1 (PyInt i) = PyInt i"
| "py_round1 (PyFloat x) = PyFloat (real_of_int (round_half_even (x * 10)) / 10)"
| "py_round1 (PyDecimal x) = PyDecimal (real_of_int (round_half_even (x * 10)) / 10)"

definition date_of :: "datetime \<Rightarrow> date" where
  "date_of t = t div 1440"

text \<open>\<^verbatim>\<open>replace(hour=8, minute=0, second=0, microsecond=0)\<close> on day \<open>d\<close>.\<close>

definition at_eight :: "date \<Rightarrow> datetime" where
  "at_eight d = d * 1440 + 480"

definition max_duration_hours :: int where
  "max_duration_hours = 4"

subsection \<open>Sequencing of pickups\<close>

definition store_location :: "grocery_store \<Rightarrow> location" where
  "store_location s = (store_latitude s, store_longitude s)"

definition bank_location :: "food_bank \<Rightarrow> location" where
  "bank_location b = (bank_latitude b, bank_longitude b)"

definition region_center :: "region \<Rightarrow> location" where
  "region_center r = (center_latitude r, center_longitude r)"

text \<open>\<^verbatim>\<open>_group_donations_by_store\<close>: the dict keeps the stores in order of
  first appearance.\<close>

fun group_loop ::
  "food_donation list \<Rightarrow> (grocery_store \<times> food_donation list) list \<Rightarrow>
   (grocery_store \<times> food_donation list) list" where
  "group_loop [] store_donations = store_donations"
| "group_loop (donation # rest) store_donations =
     (let st = donation_store donation;
          sd = (if map_of store_donations st = None
                then AList.update st [] store_donations else store_donations)
      in group_loop rest (AList.map_entry st (\<lambda>ds. ds @ [donation]) sd))"

definition group_donations_by_store ::
  "food_donation list \<Rightarrow> (grocery_store \<times> food_donation list) list" where
  "group_donations_by_store donations = group_loop donations []"

text \<open>\<^verbatim>\<open>_find_nearest_store\<close>: \<open>min_distance = None\<close> stands for
  \<^verbatim>\<open>float('inf')\<close>; only a strictly smaller distance replaces the candidate.\<close>

fun nearest_store_loop ::
  "(location \<Rightarrow> location \<Rightarrow> py_error + real) \<Rightarrow> location \<Rightarrow> grocery_store list \<Rightarrow>
   real option \<Rightarrow> grocery_store option \<Rightarrow> py_error + grocery_store option" where
  "nearest_store_loop geodesic cur [] min_distance nearest = Inr nearest"
| "nearest_store_loop geodesic cur (s # stores) min_distance nearest =
     (case geodesic cur (store_location s) of
        Inl e \<Rightarrow> Inl e
      | Inr distance \<Rightarrow>
          if (case min_distance of None \<Rightarrow> True | Some m \<Rightarrow> distance < m)
          then nearest_store_loop geodesic cur stores (Some distance) (Some s)
          else nearest_store_loop geodesic cur stores min_distance nearest)"

definition find_nearest_store ::
  "(location \<Rightarrow> location \<Rightarrow> py_error + real) \<Rightarrow> location \<Rightarrow> grocery_store list \<Rightarrow>
   py_error + grocery_store option" where
  "find_nearest_store geodesic cur stores = nearest_store_loop geodesic cur stores None None"

definition calculate_travel_time ::
  "(location \<Rightarrow> location \<Rightarrow> py_error + real) \<Rightarrow> location \<Rightarrow> grocery_store \<Rightarrow>
   py_error + int" where
  "calculate_travel_time geodesic from_location to_store =
     (let to_location = store_location to_store
      in bind_err (geodesic from_location to_location) (\<lambda>distance_miles.
           let travel_time_hours = distance_miles / 25;
               travel_time_minutes = py_int (travel_time_hours * 60)
           in Inr (max 5 (travel_time_minutes + 5))))"

text \<open>\<^verbatim>\<open>_estimate_pickup_duration\<close>. The weights are summed as they are, and the
  sum is multiplied by the float \<open>0.5\<close>: a \<^verbatim>\<open>Decimal\<close> sum raises
  \<^verbatim>\<open>TypeError\<close>.\<close>

definition estimate_pickup_duration :: "food_donation list \<Rightarrow> py_error + int" where
  "estimate_pickup_duration donations =
     bind_err (py_sum (map quantity_pounds donations)) (\<lambda>total_weight.
       let item_count = int (length donations);
           base_time = 10;
           item_time = item_count * 2
       in bind_err (py_mul total_weight (PyFloat 0.5)) (\<lambda>weight_time.
            bind_err (py_add (PyInt (base_time + item_time)) weight_time) (\<lambda>minutes.
              Inr (max 15 (py_int_of minutes)))))"

text \<open>The \<^verbatim>\<open>while unvisited_stores\<close> loop of \<^verbatim>\<open>_optimize_pickup_sequence\<close>.
  \<^verbatim>\<open>list.remove\<close> raises \<^verbatim>\<open>ValueError\<close> for a value that is not in the list
  (so also for \<^verbatim>\<open>None\<close>), a missing dict key raises \<^verbatim>\<open>KeyError\<close>.\<close>

function pickup_loop ::
  "(location \<Rightarrow> location \<Rightarrow> py_error + real) \<Rightarrow>
   (grocery_store \<times> food_donation list) list \<Rightarrow>
   location \<Rightarrow> grocery_store list \<Rightarrow> datetime \<Rightarrow> pickup_info list \<Rightarrow>
   py_error + pickup_info list" where
  "pickup_loop geodesic store_donations current_location unvisited_stores current_time acc =
     (if unvisited_stores = [] then Inr acc
      else case find_nearest_store geodesic current_location unvisited_stores of
        Inl e \<Rightarrow> Inl e
      | Inr None \<Rightarrow> Inl ValueError
      | Inr (Some nearest_store) \<Rightarrow>
          if nearest_store \<notin> set unvisited_stores then Inl ValueError
          else (case calculate_travel_time geodesic current_location nearest_store of
            Inl e \<Rightarrow> Inl e
          | Inr travel \<Rightarrow>
              (case map_of store_donations nearest_store of
                 None \<Rightarrow> Inl KeyError
               | Some ds \<Rightarrow>
                   (case estimate_pickup_duration ds of
                      Inl e \<Rightarrow> Inl e
                    | Inr duration \<Rightarrow>
                        (case py_sum (map quantity_pounds ds) of
                           Inl e \<Rightarrow> Inl e
                         | Inr weight \<Rightarrow>
                             pickup_loop geodesic store_donations
                               (store_location nearest_store)
                               (remove1 nearest_store unvisited_stores)
                               (current_time + travel + duration)
                               (acc @ [\<lparr>store = nearest_store, pickup_donations = ds,
                                        arrival_time = current_time + travel,
                                        pickup_duration = duration,
                                        pickup_total_weight = weight,
                                        pickup_estimated_arrival = None\<rparr>]))))))"
  by pat_completeness auto
termination
  by (relation "measure (\<lambda>(g, sd, cur, unvisited, t, acc). length unvisited)")
     (auto simp: length_remove1 neq_Nil_conv)

definition optimize_pickup_sequence ::
  "(location \<Rightarrow> location \<Rightarrow> py_error + real) \<Rightarrow> region \<Rightarrow> datetime \<Rightarrow>
   (grocery_store \<times> food_donation list) list \<Rightarrow> py_error + pickup_info list" where
  "optimize_pickup_sequence geodesic reg now store_donations =
     (if store_donations = [] then Inr []
      else pickup_loop geodesic store_donations (region_center reg)
             (map fst store_donations) (at_eight (date_of now) + 1440) [])"

subsection \<open>Allocation of donations to food banks\<close>

text \<open>The score of one bank that has room for the donation (the body of the
  loop of \<^verbatim>\<open>_find_best_bank_for_donation\<close> after the capacity check).
  \<^verbatim>\<open>need_ratio\<close> is a float, or the int 0 when the total need is not positive;
  the utilisation is a \<^verbatim>\<open>Decimal\<close> once the running weight of the bank is one.\<close>

definition bank_score ::
  "food_donation \<Rightarrow> food_bank \<Rightarrow> pynum \<Rightarrow> int \<Rightarrow> py_error + pynum" where
  "bank_score donation bank current_weight total_daily_need =
     bind_err (if total_daily_need > 0
               then py_truediv (PyInt (int (daily_average_need_pounds bank)))
                      (PyInt total_daily_need)
               else Inr (PyInt 0)) (\<lambda>need_ratio.
     bind_err (py_truediv current_weight (PyInt (int (storage_capacity_pounds bank))))
       (\<lambda>capacity_utilization.
     bind_err (py_sub (PyInt 1) capacity_utilization) (\<lambda>unused.
     bind_err (py_mul need_ratio unused) (\<lambda>score.
       if can_self_pickup bank \<and> py_less (PyInt 50) (quantity_pounds donation)
       then py_mul score (PyFloat 1.2) else Inr score))))"

fun best_bank_loop ::
  "food_donation \<Rightarrow> food_bank list \<Rightarrow> (food_bank \<rightharpoonup> pynum) \<Rightarrow> int \<Rightarrow>
   food_bank option \<Rightarrow> pynum \<Rightarrow> py_error + food_bank option" where
  "best_bank_loop donation [] current_weights total_daily_need best_bank best_score =
     Inr best_bank"
| "best_bank_loop donation (bank # banks) current_weights total_daily_need best_bank best_score =
     (case current_weights bank of
        None \<Rightarrow> Inl KeyError
      | Some w \<Rightarrow>
          (case py_sub (PyInt (int (storage_capacity_pounds bank))) w of
             Inl e \<Rightarrow> Inl e
           | Inr remaining_capacity \<Rightarrow>
               if py_less remaining_capacity (quantity_pounds donation)
               then best_bank_loop donation banks current_weights total_daily_need
                      best_bank best_score
               else (case bank_score donation bank w total_daily_need of
                  Inl e \<Rightarrow> Inl e
                | Inr score \<Rightarrow>
                    if py_less best_score score
                    then best_bank_loop donation banks current_weights total_daily_need
                           (Some bank) score
                    else best_bank_loop donation banks current_weights total_daily_need
                           best_bank best_score)))"

definition find_best_bank_for_donation ::
  "food_donation \<Rightarrow> food_bank list \<Rightarrow> (food_bank \<rightharpoonup> pynum) \<Rightarrow> int \<Rightarrow>
   py_error + food_bank option" where
  "find_best_bank_for_donation donation food_banks current_weights total_daily_need =
     best_bank_loop donation food_banks current_weights total_daily_need None (PyInt (- 1))"

text \<open>The sort key of \<^verbatim>\<open>_allocate_food_to_banks\<close>:
  \<^verbatim>\<open>d.expiration_date or timezone.now().date() + timedelta(days=365)\<close>.\<close>

definition urgency_key :: "datetime \<Rightarrow> food_donation \<Rightarrow> date" where
  "urgency_key now d =
     (case expiration_date d of Some e \<Rightarrow> e | None \<Rightarrow> date_of now + 365)"

text \<open>\<^verbatim>\<open>sorted\<close> is stable, as \<open>sort_key\<close> is.\<close>

definition sorted_donations :: "datetime \<Rightarrow> food_donation list \<Rightarrow> food_donation list" where
  "sorted_donations now donations = sort_key (urgency_key now) donations"

text \<open>The loop of \<^verbatim>\<open>_allocate_food_to_banks\<close>. The running weight of the chosen
  bank grows by \<^verbatim>\<open>+=\<close>: from the int 0 it takes the kind of the first weight
  added to it.\<close>

fun allocate_loop ::
  "food_donation list \<Rightarrow> food_bank list \<Rightarrow> int \<Rightarrow>
   (food_bank \<times> food_donation list) list \<Rightarrow> (food_bank \<rightharpoonup> pynum) \<Rightarrow>
   py_error + (food_bank \<times> food_donation list) list" where
  "allocate_loop [] food_banks total_daily_need bank_allocation bank_current_weight =
     Inr bank_allocation"
| "allocate_loop (donation # rest) food_banks total_daily_need bank_allocation
       bank_current_weight =
     (case find_best_bank_for_donation donation food_banks bank_current_weight
             total_daily_need of
        Inl e \<Rightarrow> Inl e
      | Inr None \<Rightarrow>
          allocate_loop rest food_banks total_daily_need bank_allocation bank_current_weight
      | Inr (Some best_bank) \<Rightarrow>
          (case (map_of bank_allocation best_bank, bank_current_weight best_bank) of
             (Some ds, Some w) \<Rightarrow>
               (case py_add w (quantity_pounds donation) of
                  Inl e \<Rightarrow> Inl e
                | Inr w' \<Rightarrow>
                    allocate_loop rest food_banks total_daily_need
                      (AList.update best_bank (ds @ [donation]) bank_allocation)
                      (bank_current_weight(best_bank \<mapsto> w')))
           | _ \<Rightarrow> Inl KeyError))"

definition allocate_food_to_banks ::
  "datetime \<Rightarrow> food_donation list \<Rightarrow> food_bank list \<Rightarrow>
   py_error + (food_bank \<times> food_donation list) list" where
  "allocate_food_to_banks now donations food_banks =
     (if food_banks = [] then Inr []
      else (let total_daily_need =
                  sum_list (map (\<lambda>bank. int (daily_average_need_pounds bank)) food_banks);
                bank_allocation = fold (\<lambda>bank. AList.update bank []) food_banks [];
                bank_current_weight =
                  fold (\<lambda>bank m. m(bank \<mapsto> PyInt 0)) food_banks Map.empty
            in allocate_loop (sorted_donations now donations) food_banks total_daily_need
                 bank_allocation bank_current_weight))"

subsection \<open>Sequencing of deliveries\<close>

fun nearest_bank_loop ::
  "(location \<Rightarrow> location \<Rightarrow> py_error + real) \<Rightarrow> location \<Rightarrow> food_bank list \<Rightarrow>
   real option \<Rightarrow> food_bank option \<Rightarrow> py_error + food_bank option" where
  "nearest_bank_loop geodesic cur [] min_distance nearest = Inr nearest"
| "nearest_bank_loop geodesic cur (b # banks) min_distance nearest =
     (case geodesic cur (bank_location b) of
        Inl e \<Rightarrow> Inl e
      | Inr distance \<Rightarrow>
          if (case min_distance of None \<Rightarrow> True | Some m \<Rightarrow> distance < m)
          then nearest_bank_loop geodesic cur banks (Some distance) (Some b)
          else nearest_bank_loop geodesic cur banks min_distance nearest)"

definition find_nearest_bank ::
  "(location \<Rightarrow> location \<Rightarrow> py_error + real) \<Rightarrow> location \<Rightarrow> food_bank list \<Rightarrow>
   py_error + food_bank option" where
  "find_nearest_bank geodesic cur banks = nearest_bank_loop geodesic cur banks None None"

definition calculate_travel_time_to_bank ::
  "(location \<Rightarrow> location \<Rightarrow> py_error + real) \<Rightarrow> location \<Rightarrow> food_bank \<Rightarrow>
   py_error + int" where
  "calculate_travel_time_to_bank geodesic from_location to_bank =
     (let to_location = bank_location to_bank
      in bind_err (geodesic from_location to_location) (\<lambda>distance_miles.
           let travel_time_hours = distance_miles / 25;
               travel_time_minutes = py_int (travel_time_hours * 60)
           in Inr (max 5 (travel_time_minutes + 5))))"

definition estimate_delivery_duration :: "food_donation list \<Rightarrow> py_error + int" where
  "estimate_delivery_duration donations =
     bind_err (py_sum (map quantity_pounds donations)) (\<lambda>total_weight.
       let item_count = int (length donations);
           base_time = 15;
           item_time = item_count * 3
       in bind_err (py_mul total_weight (PyFloat 0.8)) (\<lambda>weight_time.
            let unloading_time = 10
            in bind_err (py_add (PyInt (base_time + item_time)) weight_time) (\<lambda>partial.
                 bind_err (py_add partial (PyInt unloading_time)) (\<lambda>minutes.
                   Inr (max 20 (py_int_of minutes))))))"

function delivery_loop ::
  "(location \<Rightarrow> location \<Rightarrow> py_error + real) \<Rightarrow> (food_bank \<times> food_donation list) list \<Rightarrow>
   location \<Rightarrow> food_bank list \<Rightarrow> delivery_info list \<Rightarrow> py_error + delivery_info list" where
  "delivery_loop geodesic banks_with_food current_location unvisited_banks acc =
     (if unvisited_banks = [] then Inr acc
      else case find_nearest_bank geodesic current_location unvisited_banks of
        Inl e \<Rightarrow> Inl e
      | Inr None \<Rightarrow> Inl ValueError
      | Inr (Some nearest_bank) \<Rightarrow>
          if nearest_bank \<notin> set unvisited_banks then Inl ValueError
          else (case calculate_travel_time_to_bank geodesic current_location nearest_bank of
            Inl e \<Rightarrow> Inl e
          | Inr travel \<Rightarrow>
              (case map_of banks_with_food nearest_bank of
                 None \<Rightarrow> Inl KeyError
               | Some ds \<Rightarrow>
                   (case estimate_delivery_duration ds of
                      Inl e \<Rightarrow> Inl e
                    | Inr duration \<Rightarrow>
                        (case py_sum (map quantity_pounds ds) of
                           Inl e \<Rightarrow> Inl e
                         | Inr weight \<Rightarrow>
                             delivery_loop geodesic banks_with_food
                               (bank_location nearest_bank)
                               (remove1 nearest_bank unvisited_banks)
                               (acc @ [\<lparr>food_bank = nearest_bank, delivery_donations = ds,
                                        travel_time = travel,
                                        delivery_duration = duration,
                                        delivery_total_weight = weight,
                                        delivery_estimated_arrival = None\<rparr>]))))))"
  by pat_completeness auto
termination
  by (relation "measure (\<lambda>(g, bf, cur, unvisited, acc). length unvisited)")
     (auto simp: length_remove1 neq_Nil_conv)

definition optimize_delivery_sequence ::
  "(location \<Rightarrow> location \<Rightarrow> py_error + real) \<Rightarrow> region \<Rightarrow>
   (food_bank \<times> food_donation list) list \<Rightarrow> py_error + delivery_info list" where
  "optimize_delivery_sequence geodesic reg food_allocation =
     (let banks_with_food = filter (\<lambda>(bank, donations). donations \<noteq> []) food_allocation
      in delivery_loop geodesic banks_with_food (region_center reg)
           (map fst banks_with_food) [])"

subsection \<open>Assembling the plan\<close>

text \<open>The two loops of \<^verbatim>\<open>_create_route_plan\<close>, threading
  \<^verbatim>\<open>current_time\<close> and \<^verbatim>\<open>total_duration\<close>.\<close>

fun process_pickups ::
  "pickup_info list \<Rightarrow> datetime \<Rightarrow> int \<Rightarrow> pickup_info list \<times> datetime \<times> int" where
  "process_pickups [] current_time total_duration = ([], current_time, total_duration)"
| "process_pickups (pickup # rest) current_time total_duration =
     (let pickup' = pickup\<lparr>pickup_estimated_arrival := Some current_time\<rparr>;
          (rest', t, total) =
             process_pickups rest (current_time + pickup_duration pickup)
               (total_duration + pickup_duration pickup)
      in (pickup' # rest', t, total))"

fun process_deliveries ::
  "delivery_info list \<Rightarrow> datetime \<Rightarrow> int \<Rightarrow> delivery_info list \<times> datetime \<times> int" where
  "process_deliveries [] current_time total_duration = ([], current_time, total_duration)"
| "process_deliveries (delivery # rest) current_time total_duration =
     (let arrival = current_time + travel_time delivery;
          delivery' = delivery\<lparr>delivery_estimated_arrival := Some arrival\<rparr>;
          (rest', t, total) =
             process_deliveries rest (arrival + delivery_duration delivery)
               (total_duration + (travel_time delivery + delivery_duration delivery))
      in (delivery' # rest', t, total))"

text \<open>\<^verbatim>\<open>_calculate_efficiency_score\<close>. The division by the truck capacity raises
  for a capacity of zero; a \<^verbatim>\<open>Decimal\<close> capacity score below 100 raises
  \<^verbatim>\<open>TypeError\<close> when it is multiplied by the float \<open>0.4\<close>.\<close>

definition calculate_efficiency_score ::
  "region \<Rightarrow> pickup_info list \<Rightarrow> delivery_info list \<Rightarrow> py_error + pynum" where
  "calculate_efficiency_score reg pickups deliveries =
     (if pickups = [] \<and> deliveries = [] then Inr (PyInt 0)
      else
        (let total_stops = int (length pickups) + int (length deliveries)
         in bind_err (py_sum (map pickup_total_weight pickups)) (\<lambda>total_weight.
            bind_err (py_truediv (PyInt 1000) (PyInt (max 1 (total_stops * 5)))) (\<lambda>q.
            let distance_score = py_min100 q
            in bind_err (py_truediv total_weight (PyInt (int (truck_capacity_pounds reg))))
                 (\<lambda>load.
               bind_err (py_mul load (PyInt 100)) (\<lambda>load_percent.
               let capacity_score = py_min100 load_percent;
                   total_duration = sum_list (map pickup_duration pickups) +
                                    sum_list (map delivery_duration deliveries)
               in bind_err (py_truediv (PyInt total_duration)
                              (PyInt (max_duration_hours * 60))) (\<lambda>used.
                  bind_err (py_mul used (PyInt 100)) (\<lambda>used_percent.
                  let time_score = py_min100 used_percent
                  in bind_err (py_mul distance_score (PyFloat 0.3)) (\<lambda>a.
                     bind_err (py_mul capacity_score (PyFloat 0.4)) (\<lambda>b.
                     bind_err (py_add a b) (\<lambda>ab.
                     bind_err (py_mul time_score (PyFloat 0.3)) (\<lambda>c.
                     bind_err (py_add ab c) (\<lambda>efficiency.
                       Inr (py_round1 efficiency))))))))))))))"

definition create_route_plan ::
  "region \<Rightarrow> pickup_info list \<Rightarrow> delivery_info list \<Rightarrow> date \<Rightarrow> py_error + route_plan" where
  "create_route_plan reg pickups deliveries target =
     (let (pickups', t1, d1) = process_pickups pickups (at_eight target) 0;
          (deliveries', current_time, total_duration) = process_deliveries deliveries t1 d1
      in bind_err (py_sum (map pickup_total_weight pickups')) (\<lambda>total_weight.
         bind_err (calculate_efficiency_score reg pickups' deliveries') (\<lambda>score.
           Inr \<lparr>target_date = target,
                pickup_sequence = pickups',
                delivery_sequence = deliveries',
                total_weight_pounds = total_weight,
                total_duration_minutes = total_duration,
                estimated_completion_time = current_time,
                within_capacity =
                  (\<not> py_less (PyInt (int (truck_capacity_pounds reg))) total_weight),
                within_time_limit = (total_duration \<le> max_duration_hours * 60),
                efficiency_score = score\<rparr>)))"

text \<open>\<^verbatim>\<open>optimize_route\<close>; \<open>banks\<close> is the relation
  \<^verbatim>\<open>region.food_banks\<close> in the order in which the query returns it.\<close>

definition optimize_route ::
  "(location \<Rightarrow> location \<Rightarrow> py_error + real) \<Rightarrow> region \<Rightarrow> food_bank list \<Rightarrow> datetime \<Rightarrow>
   food_donation list \<Rightarrow> date option \<Rightarrow> py_error + route_plan" where
  "optimize_route geodesic reg banks now donations target_date_arg =
     (let target = (case target_date_arg of None \<Rightarrow> date_of (now + 1440) | Some d \<Rightarrow> d);
          store_donations = group_donations_by_store donations;
          food_banks = filter bank_is_active banks
      in bind_err (optimize_pickup_sequence geodesic reg now store_donations) (\<lambda>pickups.
         bind_err (allocate_food_to_banks now donations food_banks) (\<lambda>food_allocation.
         bind_err (optimize_delivery_sequence geodesic reg food_allocation) (\<lambda>deliveries.
           create_route_plan reg pickups deliveries target))))"

subsection \<open>Confirmation workflow: persisted records\<close>

record delivery_route =
  route_id :: nat
  scheduled_date :: date

record route_stop =
  stop_id :: nat
  stop_route :: nat
  stop_order :: nat
  stop_type :: string
  stop_grocery_store :: "grocery_store option"
  stop_food_bank :: "food_bank option"
  is_confirmed :: bool
  confirmed_at :: "datetime option"
  stop_notes :: string

record email_schedule_notification =
  notification_id :: nat
  notification_type :: string
  recipient_email :: string
  subject :: string
  message_body :: string
  notification_route_stop :: "nat option"
  sent_at :: "datetime option"
  is_sent :: bool
  response_received :: bool
  response_content :: string
  created_at :: datetime

text \<open>The two tables the workflow reads and writes.\<close>

record database =
  stops :: "route_stop list"
  notifications :: "email_schedule_notification list"

text \<open>The collaborators of the workflow: the text of the messages, and where
  the data store raises: \<open>stops_query_raises\<close> stands for an error of the query
  for the stops of a route (run by the \<^verbatim>\<open>for\<close> statement of a batch sender),
  \<open>create_raises\<close> for an error raised while the notification of a stop is
  built and created (up to and including \<^verbatim>\<open>objects.create\<close>), \<open>save_raises\<close>
  for an error of \<^verbatim>\<open>notification.save()\<close> inside \<^verbatim>\<open>_send_email\<close>.\<close>

record collaborators =
  pickup_confirmation_email :: "route_stop \<Rightarrow> string"
  delivery_confirmation_email :: "route_stop \<Rightarrow> string"
  schedule_change_email :: "route_stop \<Rightarrow> string \<Rightarrow> string"
  format_date :: "date \<Rightarrow> string"
  stops_query_raises :: "delivery_route \<Rightarrow> bool"
  create_raises :: "route_stop \<Rightarrow> bool"
  save_raises :: "route_stop \<Rightarrow> bool"

record response_result =
  result_stop_id :: nat
  processed :: bool
  action :: "string option"
  message :: string

record batch_result =
  sent :: int
  failed :: int
  total :: int

record type_confirmations =
  type_total :: int
  type_confirmed :: int
  type_pending :: int

record confirmation_status =
  status_route_id :: nat
  total_stops :: int
  confirmed_stops :: int
  pending_stops :: int
  confirmation_rate :: real
  pickup_confirmations :: type_confirmations
  delivery_confirmations :: type_confirmations
  ready_for_execution :: bool

subsection \<open>Strings\<close>

text \<open>\<^verbatim>\<open>str.lower\<close>, \<^verbatim>\<open>str.strip\<close> and the substring test \<^verbatim>\<open>p in s\<close>, on
  the bytes of the text (letters outside ASCII are left as they are).\<close>

definition lower_char :: "char \<Rightarrow> char" where
  "lower_char c =
     (if 65 \<le> (of_char c :: nat) \<and> (of_char c :: nat) \<le> 90
      then char_of (of_char c + 32 :: nat) else c)"

definition lower :: "string \<Rightarrow> string" where
  "lower s = map lower_char s"

definition is_space :: "char \<Rightarrow> bool" where
  "is_space c = ((of_char c :: nat) \<in> {9, 10, 11, 12, 13, 28, 29, 30, 31, 32})"

definition strip :: "string \<Rightarrow> string" where
  "strip s = rev (dropWhile is_space (rev (dropWhile is_space s)))"

fun py_in :: "string \<Rightarrow> string \<Rightarrow> bool" where
  "py_in p [] = (p = [])"
| "py_in p (c # cs) = (prefix p (c # cs) \<or> py_in p cs)"

subsection \<open>Confirmation workflow: recording a response\<close>

text \<open>\<^verbatim>\<open>RouteStop.objects.get(id=stop_id)\<close>.\<close>

definition get_stop :: "database \<Rightarrow> nat \<Rightarrow> py_error + route_stop" where
  "get_stop db sid =
     (case filter (\<lambda>s. stop_id s = sid) (stops db) of
        [] \<Rightarrow> Inl DoesNotExist
      | [s] \<Rightarrow> Inr s
      | _ \<Rightarrow> Inl MultipleObjectsReturned)"

text \<open>\<^verbatim>\<open>stop.save()\<close> and \<^verbatim>\<open>notification.save()\<close>: the row with that
  primary key is overwritten.\<close>

definition save_stop :: "route_stop \<Rightarrow> database \<Rightarrow> database" where
  "save_stop s db =
     db\<lparr>stops := map (\<lambda>r. if stop_id r = stop_id s then s else r) (stops db)\<rparr>"

definition save_notification :: "email_schedule_notification \<Rightarrow> database \<Rightarrow> database" where
  "save_notification n db =
     db\<lparr>notifications :=
          map (\<lambda>r. if notification_id r = notification_id n then n else r)
            (notifications db)\<rparr>"

text \<open>\<^verbatim>\<open>EmailScheduleNotification.objects.filter(route_stop=stop,
  is_sent=True).first()\<close>, under the model's default ordering
  \<^verbatim>\<open>['-created_at']\<close>.\<close>

definition first_sent_notification ::
  "database \<Rightarrow> route_stop \<Rightarrow> email_schedule_notification option" where
  "first_sent_notification db s =
     (case sort_key (\<lambda>n. - created_at n)
             (filter (\<lambda>n. notification_route_stop n = Some (stop_id s) \<and> is_sent n)
                (notifications db)) of
        [] \<Rightarrow> None
      | n # _ \<Rightarrow> Some n)"

text \<open>A notification that was sent for a stop.\<close>

definition sent_for :: "route_stop \<Rightarrow> email_schedule_notification \<Rightarrow> bool" where
  "sent_for s n = (notification_route_stop n = Some (stop_id s) \<and> is_sent n)"

text \<open>\<^verbatim>\<open>process_email_response\<close>. The handler of \<^verbatim>\<open>Exception\<close> appends the text
  of the exception to its message; that text is not modelled.\<close>

definition process_email_response ::
  "datetime \<Rightarrow> database \<Rightarrow> nat \<Rightarrow> string \<Rightarrow> response_result \<times> database" where
  "process_email_response now db sid response =
     (case get_stop db sid of
        Inl DoesNotExist \<Rightarrow>
          (\<lparr>result_stop_id = sid, processed = False, action = None,
            message = ''Route stop not found''\<rparr>, db)
      | Inl e \<Rightarrow>
          (\<lparr>result_stop_id = sid, processed = False, action = None,
            message = ''Error processing response: ''\<rparr>, db)
      | Inr stop \<Rightarrow>
          (let response_lower = strip (lower response)
           in if py_in ''confirmed'' response_lower then
                (let stop' = stop\<lparr>is_confirmed := True, confirmed_at := Some now\<rparr>;
                     db1 = save_stop stop' db;
                     db2 = (case first_sent_notification db1 stop' of
                              None \<Rightarrow> db1
                            | Some notification \<Rightarrow>
                                save_notification
                                  (notification\<lparr>response_received := True,
                                                response_content := response\<rparr>) db1)
                 in (\<lparr>result_stop_id = sid, processed = True,
                      action = Some ''confirmed'',
                      message = ''Pickup/delivery confirmed successfully''\<rparr>, db2))
              else if py_in ''reschedule'' response_lower then
                (let stop' = stop\<lparr>stop_notes := ''Reschedule requested: '' @ response\<rparr>
                 in (\<lparr>result_stop_id = sid, processed = True,
                      action = Some ''reschedule_requested'',
                      message = ''Reschedule request received - manual review required''\<rparr>,
                     save_stop stop' db))
              else
                (let stop' = stop\<lparr>stop_notes := ''Response received: '' @ response\<rparr>
                 in (\<lparr>result_stop_id = sid, processed = True,
                      action = Some ''response_recorded'',
                      message = ''Response recorded - may require manual review''\<rparr>,
                     save_stop stop' db))))"

subsection \<open>Confirmation workflow: readiness of a route\<close>

text \<open>\<^verbatim>\<open>route.stops.all()\<close>: the stops of the route, in the default ordering of
  \<^verbatim>\<open>RouteStop\<close> (by \<^verbatim>\<open>stop_order\<close> within a route).\<close>

definition route_stops :: "database \<Rightarrow> delivery_route \<Rightarrow> route_stop list" where
  "route_stops db route =
     sort_key stop_order (filter (\<lambda>s. stop_route s = route_id route) (stops db))"

definition check_pending_confirmations ::
  "database \<Rightarrow> delivery_route \<Rightarrow> confirmation_status" where
  "check_pending_confirmations db route =
     (let all_stops = route_stops db route;
          total_stops = int (length all_stops);
          confirmed_stops = int (length (filter is_confirmed all_stops));
          pending_stops = total_stops - confirmed_stops;
          pickup_stops = filter (\<lambda>s. stop_type s = ''pickup'') all_stops;
          delivery_stops = filter (\<lambda>s. stop_type s = ''delivery'') all_stops;
          confirmed_pickups = int (length (filter is_confirmed pickup_stops));
          confirmed_deliveries = int (length (filter is_confirmed delivery_stops))
      in \<lparr>status_route_id = route_id route,
          total_stops = total_stops,
          confirmed_stops = confirmed_stops,
          pending_stops = pending_stops,
          confirmation_rate =
            (if total_stops > 0
             then real_of_int confirmed_stops / real_of_int total_stops * 100 else 0),
          pickup_confirmations =
            \<lparr>type_total = int (length pickup_stops),
             type_confirmed = confirmed_pickups,
             type_pending = int (length pickup_stops) - confirmed_pickups\<rparr>,
          delivery_confirmations =
            \<lparr>type_total = int (length delivery_stops),
             type_confirmed = confirmed_deliveries,
             type_pending = int (length delivery_stops) - confirmed_deliveries\<rparr>,
          ready_for_execution = (pending_stops = 0)\<rparr>)"

subsection \<open>Confirmation workflow: batch senders\<close>

text \<open>\<^verbatim>\<open>EmailScheduleNotification.objects.create\<close>: a new row with a fresh
  primary key.\<close>

definition fresh_notification_id :: "database \<Rightarrow> nat" where
  "fresh_notification_id db = Suc (fold max (map notification_id (notifications db)) 0)"

definition create_notification ::
  "collaborators \<Rightarrow> datetime \<Rightarrow> database \<Rightarrow> route_stop \<Rightarrow> string \<Rightarrow> string \<Rightarrow>
   string \<Rightarrow> string \<Rightarrow> py_error + (email_schedule_notification \<times> database)" where
  "create_notification env now db stop ntype recipient subj body =
     (if create_raises env stop then Inl DatabaseError
      else (let n = \<lparr>notification_id = fresh_notification_id db,
                       notification_type = ntype, recipient_email = recipient,
                       subject = subj, message_body = body,
                       notification_route_stop = Some (stop_id stop),
                       sent_at = None, is_sent = False, response_received = False,
                       response_content = [], created_at = now\<rparr>
            in Inr (n, db\<lparr>notifications := notifications db @ [n]\<rparr>)))"

text \<open>\<^verbatim>\<open>_send_email\<close>: an exception of \<^verbatim>\<open>notification.save()\<close> is caught
  and becomes \<^verbatim>\<open>False\<close>.\<close>

definition send_email ::
  "collaborators \<Rightarrow> datetime \<Rightarrow> database \<Rightarrow> route_stop \<Rightarrow>
   email_schedule_notification \<Rightarrow> bool \<times> database" where
  "send_email env now db stop notification =
     (if save_raises env stop then (False, db)
      else (True, save_notification
                    (notification\<lparr>is_sent := True, sent_at := Some now\<rparr>) db))"

text \<open>\<^verbatim>\<open>_send_pickup_confirmation\<close> and \<^verbatim>\<open>_send_delivery_confirmation\<close>:
  the \<^verbatim>\<open>except Exception\<close> of each turns a raised error into \<^verbatim>\<open>False\<close>.\<close>

definition send_pickup_confirmation ::
  "collaborators \<Rightarrow> datetime \<Rightarrow> delivery_route \<Rightarrow> database \<Rightarrow> route_stop \<Rightarrow>
   bool \<times> database" where
  "send_pickup_confirmation env now route db stop =
     (case stop_grocery_store stop of
        None \<Rightarrow> (False, db)
      | Some grocery_store \<Rightarrow>
          (let subj = ''Pickup Confirmation Required - '' @ format_date env (scheduled_date route);
               body = pickup_confirmation_email env stop
           in case create_notification env now db stop ''pickup_confirmation''
                     (store_email grocery_store) subj body of
                Inl e \<Rightarrow> (False, db)
              | Inr (notification, db1) \<Rightarrow> send_email env now db1 stop notification))"

definition send_delivery_confirmation ::
  "collaborators \<Rightarrow> datetime \<Rightarrow> delivery_route \<Rightarrow> database \<Rightarrow> route_stop \<Rightarrow>
   bool \<times> database" where
  "send_delivery_confirmation env now route db stop =
     (case stop_food_bank stop of
        None \<Rightarrow> (False, db)
      | Some bank \<Rightarrow>
          (let subj = ''Delivery Schedule Confirmation - '' @ format_date env (scheduled_date route);
               body = delivery_confirmation_email env stop
           in case create_notification env now db stop ''delivery_confirmation''
                     (bank_email bank) subj body of
                Inl e \<Rightarrow> (False, db)
              | Inr (notification, db1) \<Rightarrow> send_email env now db1 stop notification))"

text \<open>The body of the \<^verbatim>\<open>try\<close> of \<^verbatim>\<open>send_schedule_change_notifications\<close>:
  reading \<^verbatim>\<open>.email\<close> of a missing store or bank raises
  \<^verbatim>\<open>AttributeError\<close>, and nothing inside catches it or an error of
  \<^verbatim>\<open>objects.create\<close>.\<close>

definition send_schedule_change ::
  "collaborators \<Rightarrow> datetime \<Rightarrow> delivery_route \<Rightarrow> string \<Rightarrow> database \<Rightarrow> route_stop \<Rightarrow>
   py_error + (bool \<times> database)" where
  "send_schedule_change env now route change_reason db stop =
     (case (if stop_type stop = ''pickup''
            then map_option store_email (stop_grocery_store stop)
            else map_option bank_email (stop_food_bank stop)) of
        None \<Rightarrow> Inl AttributeError
      | Some recipient \<Rightarrow>
          (let subj = ''Schedule Change Notification - '' @ format_date env (scheduled_date route);
               body = schedule_change_email env stop change_reason
           in case create_notification env now db stop ''schedule_change'' recipient subj body of
                Inl e \<Rightarrow> Inl e
              | Inr (notification, db1) \<Rightarrow> Inr (send_email env now db1 stop notification)))"

text \<open>The loops of the three batch senders, threading the database and the two
  counters; the \<^verbatim>\<open>except Exception\<close> of the loop body counts a failure. The
  query for the stops runs when the \<^verbatim>\<open>for\<close> statement starts, outside every
  \<^verbatim>\<open>try\<close>: its error leaves the sender. \<^verbatim>\<open>count()\<close> then reads the rows
  the loop has fetched.\<close>

fun pickup_confirmations_loop ::
  "collaborators \<Rightarrow> datetime \<Rightarrow> delivery_route \<Rightarrow> route_stop list \<Rightarrow> database \<Rightarrow>
   int \<Rightarrow> int \<Rightarrow> database \<times> int \<times> int" where
  "pickup_confirmations_loop env now route [] db sent_count failed_count =
     (db, sent_count, failed_count)"
| "pickup_confirmations_loop env now route (stop # rest) db sent_count failed_count =
     (case send_pickup_confirmation env now route db stop of
        (True, db') \<Rightarrow>
          pickup_confirmations_loop env now route rest db' (sent_count + 1) failed_count
      | (False, db') \<Rightarrow>
          pickup_confirmations_loop env now route rest db' sent_count (failed_count + 1))"

definition send_pickup_confirmations ::
  "collaborators \<Rightarrow> datetime \<Rightarrow> database \<Rightarrow> delivery_route \<Rightarrow>
   py_error + (batch_result \<times> database)" where
  "send_pickup_confirmations env now db route =
     (if stops_query_raises env route then Inl DatabaseError
      else
        (let pickup_stops = filter (\<lambda>s. stop_type s = ''pickup'') (route_stops db route);
             (db', sent_count, failed_count) =
                pickup_confirmations_loop env now route pickup_stops db 0 0
         in Inr (\<lparr>sent = sent_count, failed = failed_count,
                   total = int (length pickup_stops)\<rparr>, db')))"

fun delivery_confirmations_loop ::
  "collaborators \<Rightarrow> datetime \<Rightarrow> delivery_route \<Rightarrow> route_stop list \<Rightarrow> database \<Rightarrow>
   int \<Rightarrow> int \<Rightarrow> database \<times> int \<times> int" where
  "delivery_confirmations_loop env now route [] db sent_count failed_count =
     (db, sent_count, failed_count)"
| "delivery_confirmations_loop env now route (stop # rest) db sent_count failed_count =
     (case send_delivery_confirmation env now route db stop of
        (True, db') \<Rightarrow>
          delivery_confirmations_loop env now route rest db' (sent_count + 1) failed_count
      | (False, db') \<Rightarrow>
          delivery_confirmations_loop env now route rest db' sent_count (failed_count + 1))"

definition send_delivery_confirmations ::
  "collaborators \<Rightarrow> datetime \<Rightarrow> database \<Rightarrow> delivery_route \<Rightarrow>
   py_error + (batch_result \<times> database)" where
  "send_delivery_confirmations env now db route =
     (if stops_query_raises env route then Inl DatabaseError
      else
        (let delivery_stops =
               filter (\<lambda>s. stop_type s = ''delivery'') (route_stops db route);
             (db', sent_count, failed_count) =
                delivery_confirmations_loop env now route delivery_stops db 0 0
         in Inr (\<lparr>sent = sent_count, failed = failed_count,
                   total = int (length delivery_stops)\<rparr>, db')))"

fun schedule_change_loop ::
  "collaborators \<Rightarrow> datetime \<Rightarrow> delivery_route \<Rightarrow> string \<Rightarrow> route_stop list \<Rightarrow>
   database \<Rightarrow> int \<Rightarrow> int \<Rightarrow> database \<times> int \<times> int" where
  "schedule_change_loop env now route change_reason [] db sent_count failed_count =
     (db, sent_count, failed_count)"
| "schedule_change_loop env now route change_reason (stop # rest) db sent_count failed_count =
     (case send_schedule_change env now route change_reason db stop of
        Inl e \<Rightarrow>
          schedule_change_loop env now route change_reason rest db sent_count
            (failed_count + 1)
      | Inr (True, db') \<Rightarrow>
          schedule_change_loop env now route change_reason rest db' (sent_count + 1)
            failed_count
      | Inr (False, db') \<Rightarrow>
          schedule_change_loop env now route change_reason rest db' sent_count
            (failed_count + 1))"

definition send_schedule_change_notifications ::
  "collaborators \<Rightarrow> datetime \<Rightarrow> database \<Rightarrow> delivery_route \<Rightarrow> string \<Rightarrow>
   py_error + (batch_result \<times> database)" where
  "send_schedule_change_notifications env now db route change_reason =
     (if stops_query_raises env route then Inl DatabaseError
      else
        (let all_stops = route_stops db route;
             (db', sent_count, failed_count) =
                schedule_change_loop env now route change_reason all_stops db 0 0
         in Inr (\<lparr>sent = sent_count, failed = failed_count,
                   total = int (length all_stops)\<rparr>, db')))"

subsection \<open>Predicates used in the statements\<close>

text \<open>The address a batch sender writes to, if the stop has one.\<close>

definition pickup_recipient :: "route_stop \<Rightarrow> string option" where
  "pickup_recipient s = map_option store_email (stop_grocery_store s)"

definition delivery_recipient :: "route_stop \<Rightarrow> string option" where
  "delivery_recipient s = map_option bank_email (stop_food_bank s)"

definition schedule_change_recipient :: "route_stop \<Rightarrow> string option" where
  "schedule_change_recipient s =
     (if stop_type s = ''pickup'' then map_option store_email (stop_grocery_store s)
      else map_option bank_email (stop_food_bank s))"

text \<open>When the message for one stop goes out: the recipient exists and neither
  call of the data store raises.\<close>

definition pickup_send_succeeds :: "collaborators \<Rightarrow> route_stop \<Rightarrow> bool" where
  "pickup_send_succeeds env s =
     (stop_grocery_store s \<noteq> None \<and> \<not> create_raises env s \<and> \<not> save_raises env s)"

definition delivery_send_succeeds :: "collaborators \<Rightarrow> route_stop \<Rightarrow> bool" where
  "delivery_send_succeeds env s =
     (stop_food_bank s \<noteq> None \<and> \<not> create_raises env s \<and> \<not> save_raises env s)"

definition schedule_change_succeeds :: "collaborators \<Rightarrow> route_stop \<Rightarrow> bool" where
  "schedule_change_succeeds env s =
     ((if stop_type s = ''pickup'' then stop_grocery_store s \<noteq> None
       else stop_food_bank s \<noteq> None) \<and>
      \<not> create_raises env s \<and> \<not> save_raises env s)"

text \<open>The row a sender leaves in the notification table for a stop: created
  at \<open>now\<close> with a fresh key, and marked as sent unless saving it raised.\<close>

definition notification_row ::
  "collaborators \<Rightarrow> datetime \<Rightarrow> database \<Rightarrow> route_stop \<Rightarrow> string \<Rightarrow> string \<Rightarrow>
   string \<Rightarrow> string \<Rightarrow> email_schedule_notification" where
  "notification_row env now db stop ntype recipient subj body =
     \<lparr>notification_id = fresh_notification_id db,
      notification_type = ntype, recipient_email = recipient,
      subject = subj, message_body = body,
      notification_route_stop = Some (stop_id stop),
      sent_at = (if save_raises env stop then None else Some now),
      is_sent = (\<not> save_raises env stop), response_received = False,
      response_content = [], created_at = now\<rparr>"

text \<open>\<open>rows\<close> are the notifications of the stops \<open>ss\<close>, one for each stop and
  in the same order: each row points to its stop, goes to the stop's recipient,
  has the given type, was created at \<open>now\<close>, and is marked as sent (with
  \<^verbatim>\<open>sent_at = now\<close>) exactly when saving it did not raise.\<close>

definition notifications_for ::
  "collaborators \<Rightarrow> datetime \<Rightarrow> string \<Rightarrow> (route_stop \<Rightarrow> string option) \<Rightarrow>
   route_stop list \<Rightarrow> email_schedule_notification list \<Rightarrow> bool" where
  "notifications_for env now ntype recipient ss rows \<longleftrightarrow>
     map notification_route_stop rows = map (\<lambda>s. Some (stop_id s)) ss \<and>
     map (\<lambda>n. Some (recipient_email n)) rows = map recipient ss \<and>
     map is_sent rows = map (\<lambda>s. \<not> save_raises env s) ss \<and>
     map sent_at rows = map (\<lambda>s. if save_raises env s then None else Some now) ss \<and>
     (\<forall>n\<in>set rows. notification_type n = ntype \<and> created_at n = now \<and>
                     \<not> response_received n)"

text \<open>A bank has room for a donation when its remaining capacity is not less
  than the weight (the capacity check of \<^verbatim>\<open>_find_best_bank_for_donation\<close>).\<close>

definition has_room :: "(food_bank \<rightharpoonup> pynum) \<Rightarrow> food_donation \<Rightarrow> food_bank \<Rightarrow> bool" where
  "has_room current_weights donation bank =
     (case current_weights bank of
        None \<Rightarrow> False
      | Some w \<Rightarrow>
          \<not> (real (storage_capacity_pounds bank) - py_val w < py_val (quantity_pounds donation)))"

text \<open>The urgency date in the words of the specification: the nearest of the
  expiration date and the sell-by date, and 365 days from today for a donation
  with neither. The code sorts by \<open>urgency_key\<close> above instead.\<close>

definition spec_urgency_date :: "datetime \<Rightarrow> food_donation \<Rightarrow> date" where
  "spec_urgency_date now d =
     (case (expiration_date d, sell_by_date d) of
        (None, None) \<Rightarrow> date_of now + 365
      | (Some e, None) \<Rightarrow> e
      | (None, Some s) \<Rightarrow> s
      | (Some e, Some s) \<Rightarrow> min e s)"

subsection \<open>Example data\<close>

text \<open>Concrete rows on which the theorems below are instantiated.\<close>

definition example_store :: grocery_store where
  "example_store = \<lparr>store_id = 1, store_latitude = 0, store_longitude = 0,
     store_email = ''store@example.org''\<rparr>"

definition example_bank :: food_bank where
  "example_bank = \<lparr>bank_id = 1, bank_latitude = 0, bank_longitude = 0,
     daily_average_need_pounds = 500, storage_capacity_pounds = 1000,
     can_self_pickup = False, bank_is_active = True,
     bank_email = ''bank@example.org''\<rparr>"

definition example_route :: delivery_route where
  "example_route = \<lparr>route_id = 10, scheduled_date = 20000\<rparr>"

definition example_pickup_stop :: route_stop where
  "example_pickup_stop = \<lparr>stop_id = 1, stop_route = 10, stop_order = 1,
     stop_type = ''pickup'', stop_grocery_store = Some example_store,
     stop_food_bank = None, is_confirmed = False, confirmed_at = None,
     stop_notes = ''Dock B''\<rparr>"

definition example_delivery_stop :: route_stop where
  "example_delivery_stop = \<lparr>stop_id = 2, stop_route = 10, stop_order = 2,
     stop_type = ''delivery'', stop_grocery_store = None,
     stop_food_bank = Some example_bank, is_confirmed = True, confirmed_at = Some 100,
     stop_notes = []\<rparr>"

definition example_notification ::
  "nat \<Rightarrow> bool \<Rightarrow> datetime \<Rightarrow> email_schedule_notification" where
  "example_notification i was_sent t = \<lparr>notification_id = i,
     notification_type = ''pickup_confirmation'', recipient_email = ''store@example.org'',
     subject = ''Pickup'', message_body = ''Dear store'',
     notification_route_stop = Some 1, sent_at = (if was_sent then Some t else None),
     is_sent = was_sent, response_received = False, response_content = [],
     created_at = t\<rparr>"

definition example_database :: database where
  "example_database = \<lparr>stops = [example_pickup_stop, example_delivery_stop],
     notifications = [example_notification 1 True 5, example_notification 2 True 9,
                      example_notification 3 False 12]\<rparr>"

text \<open>Collaborators for which saving the notification of stop 1 raises, and
  collaborators for which the query for the stops of a route raises.\<close>

definition example_collaborators :: collaborators where
  "example_collaborators = \<lparr>pickup_confirmation_email = (\<lambda>s. ''Dear store''),
     delivery_confirmation_email = (\<lambda>s. ''Dear bank''),
     schedule_change_email = (\<lambda>s reason. reason),
     format_date = (\<lambda>d. ''2024-10-04''),
     stops_query_raises = (\<lambda>r. False),
     create_raises = (\<lambda>s. False),
     save_raises = (\<lambda>s. stop_id s = 1)\<rparr>"

definition failing_store_collaborators :: collaborators where
  "failing_store_collaborators = example_collaborators\<lparr>stops_query_raises := (\<lambda>r. True)\<rparr>"

text \<open>Rows for the route optimiser. \<open>example_now\<close> is 10:00 on day 20000. The two
  example donations are rows of the database, so their weights are
  \<^verbatim>\<open>Decimal\<close>s; \<open>memory_donation\<close> is an instance built in memory with a float
  weight (as \<^verbatim>\<open>email_processor.py\<close> does with
  \<^verbatim>\<open>quantity_pounds=float(...)\<close>).\<close>

definition example_now :: datetime where
  "example_now = 20000 * 1440 + 600"

definition example_region :: region where
  "example_region =
     \<lparr>center_latitude = 0, center_longitude = 0, truck_capacity_pounds = 2000\<rparr>"

definition example_donation_sell_by :: food_donation where
  "example_donation_sell_by = \<lparr>donation_id = 1, donation_store = example_store,
     quantity_pounds = PyDecimal 20, expiration_date = None, sell_by_date = Some 20001\<rparr>"

definition example_donation_expiring :: food_donation where
  "example_donation_expiring = \<lparr>donation_id = 2, donation_store = example_store,
     quantity_pounds = PyDecimal 30, expiration_date = Some 20010, sell_by_date = None\<rparr>"

definition memory_donation :: food_donation where
  "memory_donation = \<lparr>donation_id = 3, donation_store = example_store,
     quantity_pounds = PyFloat 20, expiration_date = None, sell_by_date = Some 20001\<rparr>"

text \<open>Banks without need: one with room for neither example donation, and two
  with a capacity of 1000 pounds.\<close>

definition full_zero_need_bank :: food_bank where
  "full_zero_need_bank =
     example_bank\<lparr>bank_id := 2, daily_average_need_pounds := 0,
                   storage_capacity_pounds := 10\<rparr>"

definition zero_need_bank :: food_bank where
  "zero_need_bank = example_bank\<lparr>daily_average_need_pounds := 0\<rparr>"

definition other_zero_need_bank :: food_bank where
  "other_zero_need_bank = example_bank\<lparr>bank_id := 3, daily_average_need_pounds := 0\<rparr>"

text \<open>A distance function for which every two places are five miles apart.\<close>

definition five_miles :: "location \<Rightarrow> location \<Rightarrow> py_error + real" where
  "five_miles a b = Inr 5"

section \<open>Properties of the confirmation workflow\<close>

subsection \<open>The substring test\<close>

lemma py_in_sublist: "py_in p s = sublist p s"
  by (induction s) (auto simp: sublist_Cons_right)

lemma sublist_dropWhile:
  assumes "p \<noteq> []" "\<not> P (hd p)"
  shows "sublist p (dropWhile P s) = sublist p s"
  using assms
proof (induction s)
  case Nil
  then show ?case by simp
next
  case (Cons c cs)
  show ?case
  proof (cases "P c")
    case True
    have "\<not> prefix p (c # cs)"
      using True Cons.prems by (cases p) auto
    then show ?thesis
      using True Cons by (simp add: sublist_Cons_right)
  next
    case False
    then show ?thesis by simp
  qed
qed

lemma sublist_strip:
  assumes "p \<noteq> []" "\<not> is_space (hd p)" "\<not> is_space (last p)"
  shows "sublist p (strip s) = sublist p s"
proof -
  have "sublist p (strip s) = sublist (rev p) (dropWhile is_space (rev (dropWhile is_space s)))"
    unfolding strip_def by (metis sublist_rev rev_rev_ident)
  also have "\<dots> = sublist (rev p) (rev (dropWhile is_space s))"
    using assms by (intro sublist_dropWhile) (auto simp: hd_rev)
  also have "\<dots> = sublist p (dropWhile is_space s)"
    by (simp add: sublist_rev)
  also have "\<dots> = sublist p s"
    using assms by (intro sublist_dropWhile) auto
  finally show ?thesis .
qed

text \<open>Stripping the text does not change whether it contains one of the two
  keywords, which have no white space.\<close>

lemma py_in_strip_confirmed: "py_in ''confirmed'' (strip s) = py_in ''confirmed'' s"
  unfolding py_in_sublist by (rule sublist_strip) (simp_all add: is_space_def)

lemma py_in_strip_reschedule: "py_in ''reschedule'' (strip s) = py_in ''reschedule'' s"
  unfolding py_in_sublist by (rule sublist_strip) (simp_all add: is_space_def)

subsection \<open>Reading and writing the tables\<close>

lemma filter_save_stop:
  "filter (\<lambda>s. stop_id s = stop_id s') (map (\<lambda>r. if stop_id r = stop_id s' then s' else r) xs)
     = map (\<lambda>_. s') (filter (\<lambda>s. stop_id s = stop_id s') xs)"
  by (induction xs) auto

lemma get_stop_Inr:
  "get_stop db sid = Inr s \<longleftrightarrow> filter (\<lambda>s. stop_id s = sid) (stops db) = [s]"
  unfolding get_stop_def by (simp split: list.splits)

lemma get_stop_id:
  assumes "get_stop db sid = Inr s"
  shows "stop_id s = sid"
proof -
  have "s \<in> set (filter (\<lambda>s. stop_id s = sid) (stops db))"
    using assms by (simp add: get_stop_Inr)
  then show ?thesis by simp
qed

lemma get_stop_save_stop:
  assumes "get_stop db sid = Inr s" "stop_id s' = sid"
  shows "get_stop (save_stop s' db) sid = Inr s'"
proof -
  have "filter (\<lambda>s. stop_id s = stop_id s') (stops db) = [s]"
    using assms by (simp add: get_stop_Inr)
  then have "filter (\<lambda>s. stop_id s = stop_id s') (stops (save_stop s' db)) = [s']"
    by (simp add: save_stop_def filter_save_stop)
  then show ?thesis using assms(2) by (simp add: get_stop_Inr)
qed

lemma get_stop_save_notification [simp]:
  "get_stop (save_notification n db) sid = get_stop db sid"
  by (simp add: get_stop_def save_notification_def)

lemma notifications_save_stop [simp]:
  "notifications (save_stop s db) = notifications db"
  by (simp add: save_stop_def)

lemma stops_save_notification [simp]:
  "stops (save_notification n db) = stops db"
  by (simp add: save_notification_def)

lemma first_sent_notification_save_stop [simp]:
  "first_sent_notification (save_stop s' db) s = first_sent_notification db s"
  by (simp add: first_sent_notification_def)

lemma first_sent_notification_stop_id:
  "stop_id s' = stop_id s \<Longrightarrow> first_sent_notification db s' = first_sent_notification db s"
  by (simp add: first_sent_notification_def)

lemma sort_key_Nil_iff: "sort_key f xs = [] \<longleftrightarrow> xs = []"
proof -
  have "length (sort_key f xs) = length xs" by (rule length_sort)
  then show ?thesis by (simp only: flip: length_0_conv)
qed

lemma sort_key_hd_max:
  assumes "sort_key f xs = y # ys"
  shows "y \<in> set xs \<and> (\<forall>x\<in>set xs. f y \<le> f x)"
proof -
  have "set (y # ys) = set xs"
    using assms set_sort[of f xs] by simp
  moreover have "sorted (map f (y # ys))"
    using assms sorted_sort_key[of f xs] by simp
  ultimately show ?thesis by auto
qed


lemma first_sent_notification_alt:
  "first_sent_notification db s =
     (case sort_key (\<lambda>n. - created_at n) (filter (sent_for s) (notifications db)) of
        [] \<Rightarrow> None | n # _ \<Rightarrow> Some n)"
  unfolding first_sent_notification_def sent_for_def ..

lemma first_sent_notification_None:
  "first_sent_notification db s = None \<longleftrightarrow>
   (\<forall>n\<in>set (notifications db). \<not> sent_for s n)"
proof -
  have "first_sent_notification db s = None \<longleftrightarrow>
        sort_key (\<lambda>n. - created_at n) (filter (sent_for s) (notifications db)) = []"
    unfolding first_sent_notification_alt by (simp split: list.splits)
  also have "\<dots> \<longleftrightarrow> filter (sent_for s) (notifications db) = []"
    by (rule sort_key_Nil_iff)
  also have "\<dots> \<longleftrightarrow> (\<forall>n\<in>set (notifications db). \<not> sent_for s n)"
    by (simp add: filter_empty_conv)
  finally show ?thesis .
qed

lemma first_sent_notification_Some:
  assumes "first_sent_notification db s = Some n"
  shows "n \<in> set (notifications db) \<and> sent_for s n \<and>
         (\<forall>m\<in>set (notifications db). sent_for s m \<longrightarrow> created_at m \<le> created_at n)"
proof -
  obtain rest where
    "sort_key (\<lambda>n. - created_at n) (filter (sent_for s) (notifications db)) = n # rest"
    using assms unfolding first_sent_notification_alt by (simp split: list.splits)
  from sort_key_hd_max[OF this]
  have "n \<in> set (filter (sent_for s) (notifications db))"
    and "\<forall>m\<in>set (filter (sent_for s) (notifications db)). - created_at n \<le> - created_at m"
    by blast+
  then show ?thesis by simp
qed

subsection \<open>The three branches of \<^verbatim>\<open>process_email_response\<close>\<close>

lemma respond_confirmed:
  assumes "get_stop db sid = Inr stop" "py_in ''confirmed'' (lower response)"
  shows "process_email_response now db sid response =
     (\<lparr>result_stop_id = sid, processed = True, action = Some ''confirmed'',
       message = ''Pickup/delivery confirmed successfully''\<rparr>,
      (let db1 = save_stop (stop\<lparr>is_confirmed := True, confirmed_at := Some now\<rparr>) db
       in case first_sent_notification db stop of
            None \<Rightarrow> db1
          | Some n \<Rightarrow>
              save_notification (n\<lparr>response_received := True, response_content := response\<rparr>) db1))"
proof -
  have "first_sent_notification db (stop\<lparr>is_confirmed := True, confirmed_at := Some now\<rparr>)
          = first_sent_notification db stop"
    by (rule first_sent_notification_stop_id) simp
  then show ?thesis
    using assms unfolding process_email_response_def
    by (simp add: py_in_strip_confirmed Let_def)
qed

lemma respond_reschedule:
  assumes "get_stop db sid = Inr stop" "\<not> py_in ''confirmed'' (lower response)"
    "py_in ''reschedule'' (lower response)"
  shows "process_email_response now db sid response =
     (\<lparr>result_stop_id = sid, processed = True, action = Some ''reschedule_requested'',
       message = ''Reschedule request received - manual review required''\<rparr>,
      save_stop (stop\<lparr>stop_notes := ''Reschedule requested: '' @ response\<rparr>) db)"
  using assms unfolding process_email_response_def
  by (simp add: py_in_strip_confirmed py_in_strip_reschedule Let_def)

lemma respond_other:
  assumes "get_stop db sid = Inr stop" "\<not> py_in ''confirmed'' (lower response)"
    "\<not> py_in ''reschedule'' (lower response)"
  shows "process_email_response now db sid response =
     (\<lparr>result_stop_id = sid, processed = True, action = Some ''response_recorded'',
       message = ''Response recorded - may require manual review''\<rparr>,
      save_stop (stop\<lparr>stop_notes := ''Response received: '' @ response\<rparr>) db)"
  using assms unfolding process_email_response_def
  by (simp add: py_in_strip_confirmed py_in_strip_reschedule Let_def)

lemma respond_not_found:
  assumes "\<forall>s\<in>set (stops db). stop_id s \<noteq> sid"
  shows "process_email_response now db sid response =
     (\<lparr>result_stop_id = sid, processed = False, action = None,
       message = ''Route stop not found''\<rparr>, db)"
proof -
  have "filter (\<lambda>s. stop_id s = sid) (stops db) = []"
    using assms by (simp add: filter_empty_conv)
  then have "get_stop db sid = Inl DoesNotExist"
    by (simp add: get_stop_def)
  then show ?thesis by (simp add: process_email_response_def)
qed

subsection \<open>Recording a response\<close>

text \<open>
  Claim C7. For a stop id that no row of the stop table carries,
  \<^verbatim>\<open>process_email_response\<close> returns the not-found result
  (\<^verbatim>\<open>processed = False\<close>, no action, message \<^verbatim>\<open>Route stop not found\<close>) and the
  database, stops and notifications alike, is returned as it was.
\<close>

theorem process_email_response_unknown_stop:
  assumes "\<forall>s\<in>set (stops db). stop_id s \<noteq> sid"
  shows "process_email_response now db sid response =
     (\<lparr>result_stop_id = sid, processed = False, action = None,
       message = ''Route stop not found''\<rparr>, db)"
  using assms by (rule respond_not_found)

theorem process_email_response_unknown_stop_witness:
  "map stop_id (stops example_database) = [1, 2] \<and>
   process_email_response 200 example_database 7 ''confirmed'' =
     (\<lparr>result_stop_id = 7, processed = False, action = None,
       message = ''Route stop not found''\<rparr>, example_database)"
proof -
  have h: "\<forall>s\<in>set (stops example_database). stop_id s \<noteq> 7"
    by (simp add: example_database_def example_pickup_stop_def example_delivery_stop_def)
  have ids: "map stop_id (stops example_database) = [1, 2]"
    by (simp add: example_database_def example_pickup_stop_def example_delivery_stop_def)
  from process_email_response_unknown_stop[OF h, of 200 "''confirmed''"] ids
  show ?thesis by simp
qed

text \<open>
  Claim C10. For an existing stop and a response whose lower-cased text contains
  both \<^verbatim>\<open>confirmed\<close> and \<^verbatim>\<open>reschedule\<close>, the response is a confirmation:
  the action is \<^verbatim>\<open>confirmed\<close>, the stored stop is the old one with
  \<^verbatim>\<open>is_confirmed\<close> set and \<^verbatim>\<open>confirmed_at = now\<close>, and its notes are the old
  notes (no reschedule annotation).
\<close>

theorem process_email_response_confirmed_wins:
  assumes "get_stop db sid = Inr stop"
    and "py_in ''confirmed'' (lower response)"
    and "py_in ''reschedule'' (lower response)"
  shows "action (fst (process_email_response now db sid response)) = Some ''confirmed'' \<and>
         get_stop (snd (process_email_response now db sid response)) sid =
           Inr (stop\<lparr>is_confirmed := True, confirmed_at := Some now\<rparr>) \<and>
         stop_notes (stop\<lparr>is_confirmed := True, confirmed_at := Some now\<rparr>) = stop_notes stop"
proof -
  let ?stop' = "stop\<lparr>is_confirmed := True, confirmed_at := Some now\<rparr>"
  have sid: "stop_id ?stop' = sid"
    using get_stop_id[OF assms(1)] by simp
  have "get_stop (save_stop ?stop' db) sid = Inr ?stop'"
    using assms(1) sid by (rule get_stop_save_stop)
  then have "get_stop (snd (process_email_response now db sid response)) sid = Inr ?stop'"
    unfolding respond_confirmed[OF assms(1,2)]
    by (simp add: Let_def split: option.splits)
  moreover have "action (fst (process_email_response now db sid response)) = Some ''confirmed''"
    unfolding respond_confirmed[OF assms(1,2)] by simp
  ultimately show ?thesis by simp
qed

theorem process_email_response_confirmed_wins_witness:
  "get_stop example_database 1 = Inr example_pickup_stop \<and>
   py_in ''confirmed'' (lower ''Not CONFIRMED, please reschedule'') \<and>
   py_in ''reschedule'' (lower ''Not CONFIRMED, please reschedule'') \<and>
   action (fst (process_email_response 200 example_database 1
                  ''Not CONFIRMED, please reschedule'')) = Some ''confirmed'' \<and>
   get_stop (snd (process_email_response 200 example_database 1
                  ''Not CONFIRMED, please reschedule'')) 1 =
     Inr (example_pickup_stop\<lparr>is_confirmed := True, confirmed_at := Some 200\<rparr>)"
proof -
  have h: "get_stop example_database 1 = Inr example_pickup_stop"
    by code_simp
  have c: "py_in ''confirmed'' (lower ''Not CONFIRMED, please reschedule'')"
    by code_simp
  have r: "py_in ''reschedule'' (lower ''Not CONFIRMED, please reschedule'')"
    by code_simp
  from process_email_response_confirmed_wins[OF h c r, of 200] h c r
  show ?thesis by simp
qed


lemma notifications_respond_confirmed:
  "notifications
     (case first_sent_notification db stop of
        None \<Rightarrow> save_stop stop' db
      | Some n \<Rightarrow> save_notification (n\<lparr>response_received := True, response_content := response\<rparr>)
                    (save_stop stop' db)) =
   (case first_sent_notification db stop of
      None \<Rightarrow> notifications db
    | Some n \<Rightarrow>
        map (\<lambda>r. if notification_id r = notification_id n
                 then n\<lparr>response_received := True, response_content := response\<rparr> else r)
          (notifications db))"
  by (simp add: save_notification_def split: option.splits)

text \<open>
  Claim C6, as the code has it. For an existing stop the lower-cased text is
  classified in this order.
  \<^item> It contains \<^verbatim>\<open>confirmed\<close>: the stop is stored with \<^verbatim>\<open>is_confirmed\<close> set
    and \<^verbatim>\<open>confirmed_at = now\<close>; the notification that comes first among the sent
    notifications of the stop in the order \<^verbatim>\<open>-created_at\<close> (one with the
    greatest creation time), if there is one, is marked as responded and
    receives the text; no other notification changes.
  \<^item> Otherwise it contains \<^verbatim>\<open>reschedule\<close>: the notes of the stop are replaced
    by \<^verbatim>\<open>Reschedule requested: \<close> followed by the text; the confirmation
    flag and the notifications are left as they are.
  \<^item> Otherwise the notes are replaced by \<^verbatim>\<open>Response received: \<close> followed
    by the text; the confirmation flag and the notifications are left as they are.
\<close>

theorem process_email_response_classification:
  assumes "get_stop db sid = Inr stop"
  shows
    "(py_in ''confirmed'' (lower response) \<longrightarrow>
        fst (process_email_response now db sid response) =
          \<lparr>result_stop_id = sid, processed = True, action = Some ''confirmed'',
           message = ''Pickup/delivery confirmed successfully''\<rparr> \<and>
        get_stop (snd (process_email_response now db sid response)) sid =
          Inr (stop\<lparr>is_confirmed := True, confirmed_at := Some now\<rparr>) \<and>
        notifications (snd (process_email_response now db sid response)) =
          (case first_sent_notification db stop of
             None \<Rightarrow> notifications db
           | Some n \<Rightarrow>
               map (\<lambda>r. if notification_id r = notification_id n
                        then n\<lparr>response_received := True, response_content := response\<rparr>
                        else r)
                 (notifications db)) \<and>
        (\<forall>n. first_sent_notification db stop = Some n \<longrightarrow>
             n \<in> set (notifications db) \<and> sent_for stop n \<and>
             (\<forall>m\<in>set (notifications db). sent_for stop m \<longrightarrow> created_at m \<le> created_at n)) \<and>
        (first_sent_notification db stop = None \<longrightarrow>
             (\<forall>n\<in>set (notifications db). \<not> sent_for stop n))) \<and>
     (\<not> py_in ''confirmed'' (lower response) \<and> py_in ''reschedule'' (lower response) \<longrightarrow>
        fst (process_email_response now db sid response) =
          \<lparr>result_stop_id = sid, processed = True, action = Some ''reschedule_requested'',
           message = ''Reschedule request received - manual review required''\<rparr> \<and>
        get_stop (snd (process_email_response now db sid response)) sid =
          Inr (stop\<lparr>stop_notes := ''Reschedule requested: '' @ response\<rparr>) \<and>
        notifications (snd (process_email_response now db sid response)) = notifications db) \<and>
     (\<not> py_in ''confirmed'' (lower response) \<and> \<not> py_in ''reschedule'' (lower response) \<longrightarrow>
        fst (process_email_response now db sid response) =
          \<lparr>result_stop_id = sid, processed = True, action = Some ''response_recorded'',
           message = ''Response recorded - may require manual review''\<rparr> \<and>
        get_stop (snd (process_email_response now db sid response)) sid =
          Inr (stop\<lparr>stop_notes := ''Response received: '' @ response\<rparr>) \<and>
        notifications (snd (process_email_response now db sid response)) = notifications db)"
proof (intro conjI impI)
  assume c: "py_in ''confirmed'' (lower response)"
  let ?stop' = "stop\<lparr>is_confirmed := True, confirmed_at := Some now\<rparr>"
  note eq = respond_confirmed[OF assms c, of now]
  show "fst (process_email_response now db sid response) =
          \<lparr>result_stop_id = sid, processed = True, action = Some ''confirmed'',
           message = ''Pickup/delivery confirmed successfully''\<rparr>"
    unfolding eq by simp
  have "stop_id ?stop' = sid"
    using get_stop_id[OF assms] by simp
  with assms have "get_stop (save_stop ?stop' db) sid = Inr ?stop'"
    by (rule get_stop_save_stop)
  then show "get_stop (snd (process_email_response now db sid response)) sid = Inr ?stop'"
    unfolding eq by (simp add: Let_def split: option.splits)
  show "notifications (snd (process_email_response now db sid response)) =
          (case first_sent_notification db stop of
             None \<Rightarrow> notifications db
           | Some n \<Rightarrow>
               map (\<lambda>r. if notification_id r = notification_id n
                        then n\<lparr>response_received := True, response_content := response\<rparr>
                        else r)
                 (notifications db))"
    unfolding eq by (simp add: Let_def notifications_respond_confirmed)
  show "\<forall>n. first_sent_notification db stop = Some n \<longrightarrow>
             n \<in> set (notifications db) \<and> sent_for stop n \<and>
             (\<forall>m\<in>set (notifications db). sent_for stop m \<longrightarrow> created_at m \<le> created_at n)"
    using first_sent_notification_Some by blast
next
  assume "first_sent_notification db stop = None"
  then show "\<forall>n\<in>set (notifications db). \<not> sent_for stop n"
    by (simp add: first_sent_notification_None)
next
  assume h: "\<not> py_in ''confirmed'' (lower response) \<and> py_in ''reschedule'' (lower response)"
  let ?stop' = "stop\<lparr>stop_notes := ''Reschedule requested: '' @ response\<rparr>"
  from h have eq: "process_email_response now db sid response =
     (\<lparr>result_stop_id = sid, processed = True, action = Some ''reschedule_requested'',
       message = ''Reschedule request received - manual review required''\<rparr>,
      save_stop ?stop' db)"
    using respond_reschedule[OF assms] by blast
  show "fst (process_email_response now db sid response) =
          \<lparr>result_stop_id = sid, processed = True, action = Some ''reschedule_requested'',
           message = ''Reschedule request received - manual review required''\<rparr>"
    unfolding eq by simp
  have "stop_id ?stop' = sid"
    using get_stop_id[OF assms] by simp
  with assms have "get_stop (save_stop ?stop' db) sid = Inr ?stop'"
    by (rule get_stop_save_stop)
  then show "get_stop (snd (process_email_response now db sid response)) sid = Inr ?stop'"
    unfolding eq by simp
  show "notifications (snd (process_email_response now db sid response)) = notifications db"
    unfolding eq by simp
next
  assume h: "\<not> py_in ''confirmed'' (lower response) \<and> \<not> py_in ''reschedule'' (lower response)"
  let ?stop' = "stop\<lparr>stop_notes := ''Response received: '' @ response\<rparr>"
  from h have eq: "process_email_response now db sid response =
     (\<lparr>result_stop_id = sid, processed = True, action = Some ''response_recorded'',
       message = ''Response recorded - may require manual review''\<rparr>,
      save_stop ?stop' db)"
    using respond_other[OF assms] by blast
  show "fst (process_email_response now db sid response) =
          \<lparr>result_stop_id = sid, processed = True, action = Some ''response_recorded'',
           message = ''Response recorded - may require manual review''\<rparr>"
    unfolding eq by simp
  have "stop_id ?stop' = sid"
    using get_stop_id[OF assms] by simp
  with assms have "get_stop (save_stop ?stop' db) sid = Inr ?stop'"
    by (rule get_stop_save_stop)
  then show "get_stop (snd (process_email_response now db sid response)) sid = Inr ?stop'"
    unfolding eq by simp
  show "notifications (snd (process_email_response now db sid response)) = notifications db"
    unfolding eq by simp
qed


theorem process_email_response_classification_witness:
  "get_stop example_database 1 = Inr example_pickup_stop \<and>
   py_in ''confirmed'' (lower ''Yes, CONFIRMED'') \<and>
   get_stop (snd (process_email_response 200 example_database 1 ''Yes, CONFIRMED'')) 1 =
     Inr (example_pickup_stop\<lparr>is_confirmed := True, confirmed_at := Some 200\<rparr>) \<and>
   notifications (snd (process_email_response 200 example_database 1 ''Yes, CONFIRMED'')) =
     [example_notification 1 True 5,
      (example_notification 2 True 9)
         \<lparr>response_received := True, response_content := ''Yes, CONFIRMED''\<rparr>,
      example_notification 3 False 12] \<and>
   \<not> py_in ''confirmed'' (lower ''Please RESCHEDULE'') \<and>
   py_in ''reschedule'' (lower ''Please RESCHEDULE'') \<and>
   get_stop (snd (process_email_response 200 example_database 1 ''Please RESCHEDULE'')) 1 =
     Inr (example_pickup_stop\<lparr>stop_notes := ''Reschedule requested: Please RESCHEDULE''\<rparr>) \<and>
   \<not> py_in ''confirmed'' (lower ''Thanks'') \<and> \<not> py_in ''reschedule'' (lower ''Thanks'') \<and>
   get_stop (snd (process_email_response 200 example_database 1 ''Thanks'')) 1 =
     Inr (example_pickup_stop\<lparr>stop_notes := ''Response received: Thanks''\<rparr>)"
proof -
  have h: "get_stop example_database 1 = Inr example_pickup_stop"
    by code_simp
  have c1: "py_in ''confirmed'' (lower ''Yes, CONFIRMED'')"
    by code_simp
  have c2: "\<not> py_in ''confirmed'' (lower ''Please RESCHEDULE'')"
    "py_in ''reschedule'' (lower ''Please RESCHEDULE'')"
    by code_simp+
  have c3: "\<not> py_in ''confirmed'' (lower ''Thanks'')" "\<not> py_in ''reschedule'' (lower ''Thanks'')"
    by code_simp+
  have f: "first_sent_notification example_database example_pickup_stop =
             Some (example_notification 2 True 9)"
    by code_simp
  have n: "notifications example_database =
      [example_notification 1 True 5, example_notification 2 True 9,
       example_notification 3 False 12]"
    by (simp add: example_database_def)
  have ids: "notification_id (example_notification i b t) = i" for i b t
    by (simp add: example_notification_def)
  from process_email_response_classification[OF h, of "''Yes, CONFIRMED''" 200]
       process_email_response_classification[OF h, of "''Please RESCHEDULE''" 200]
       process_email_response_classification[OF h, of "''Thanks''" 200]
       h c1 c2 c3
  show ?thesis by (simp add: f n ids)
qed

text \<open>
  The claim C6 says that the annotation is appended to the notes. The code
  assigns the annotation to \<^verbatim>\<open>stop.notes\<close>: a stop whose notes were
  \<^verbatim>\<open>Dock B\<close> has, after a reschedule response, notes that no longer start with
  (or contain) the old notes.
\<close>

theorem process_email_response_reschedule_replaces_notes:
  "get_stop example_database 1 = Inr example_pickup_stop \<and>
   stop_notes example_pickup_stop = ''Dock B'' \<and>
   py_in ''reschedule'' (strip (lower ''Please RESCHEDULE'')) \<and>
   get_stop (snd (process_email_response 200 example_database 1 ''Please RESCHEDULE'')) 1 =
     Inr (example_pickup_stop\<lparr>stop_notes := ''Reschedule requested: Please RESCHEDULE''\<rparr>) \<and>
   \<not> prefix ''Dock B'' ''Reschedule requested: Please RESCHEDULE''"
  by code_simp

subsection \<open>Readiness of a route\<close>

lemma length_filter_minus:
  "int (length xs) - int (length (filter P xs)) = int (length (filter (\<lambda>x. \<not> P x) xs))"
  using sum_length_filter_compl[of P xs] by simp

lemma filter_confirmed_of_type:
  "filter is_confirmed (filter (\<lambda>s. stop_type s = ty) xs) =
   filter (\<lambda>s. stop_type s = ty \<and> is_confirmed s) xs"
  by (induction xs) auto

lemma filter_pending_of_type:
  "filter (\<lambda>s. \<not> is_confirmed s) (filter (\<lambda>s. stop_type s = ty) xs) =
   filter (\<lambda>s. stop_type s = ty \<and> \<not> is_confirmed s) xs"
  by (induction xs) auto

text \<open>
  Claim C8. For every route, \<^verbatim>\<open>check_pending_confirmations\<close> reports the number
  of stops of the route, of its confirmed stops and of its unconfirmed (pending)
  stops, the same three counts for the pickup stops and for the delivery stops,
  the rate \<open>confirmed / total * 100\<close> (0 for a route without stops), and
  \<^verbatim>\<open>ready_for_execution\<close>, which is true exactly when the pending count is 0,
  that is, exactly when every stop of the route is confirmed.
\<close>

theorem check_pending_confirmations_counts:
  "total_stops (check_pending_confirmations db route) = int (length (route_stops db route)) \<and>
   confirmed_stops (check_pending_confirmations db route) =
     int (length (filter is_confirmed (route_stops db route))) \<and>
   pending_stops (check_pending_confirmations db route) =
     int (length (filter (\<lambda>s. \<not> is_confirmed s) (route_stops db route))) \<and>
   pickup_confirmations (check_pending_confirmations db route) =
     \<lparr>type_total =
        int (length (filter (\<lambda>s. stop_type s = ''pickup'') (route_stops db route))),
      type_confirmed =
        int (length (filter (\<lambda>s. stop_type s = ''pickup'' \<and> is_confirmed s)
                       (route_stops db route))),
      type_pending =
        int (length (filter (\<lambda>s. stop_type s = ''pickup'' \<and> \<not> is_confirmed s)
                       (route_stops db route)))\<rparr> \<and>
   delivery_confirmations (check_pending_confirmations db route) =
     \<lparr>type_total =
        int (length (filter (\<lambda>s. stop_type s = ''delivery'') (route_stops db route))),
      type_confirmed =
        int (length (filter (\<lambda>s. stop_type s = ''delivery'' \<and> is_confirmed s)
                       (route_stops db route))),
      type_pending =
        int (length (filter (\<lambda>s. stop_type s = ''delivery'' \<and> \<not> is_confirmed s)
                       (route_stops db route)))\<rparr> \<and>
   confirmation_rate (check_pending_confirmations db route) =
     (if route_stops db route = [] then 0
      else real (length (filter is_confirmed (route_stops db route))) /
           real (length (route_stops db route)) * 100) \<and>
   (ready_for_execution (check_pending_confirmations db route) \<longleftrightarrow>
      pending_stops (check_pending_confirmations db route) = 0) \<and>
   (ready_for_execution (check_pending_confirmations db route) \<longleftrightarrow>
      (\<forall>s\<in>set (route_stops db route). is_confirmed s))"
proof -
  let ?S = "route_stops db route"
  let ?st = "check_pending_confirmations db route"
  have total: "total_stops ?st = int (length ?S)"
    by (simp add: check_pending_confirmations_def Let_def)
  have confirmed: "confirmed_stops ?st = int (length (filter is_confirmed ?S))"
    by (simp add: check_pending_confirmations_def Let_def)
  have pending: "pending_stops ?st = int (length (filter (\<lambda>s. \<not> is_confirmed s) ?S))"
    by (simp add: check_pending_confirmations_def Let_def length_filter_minus)
  have pickup: "pickup_confirmations ?st =
     \<lparr>type_total = int (length (filter (\<lambda>s. stop_type s = ''pickup'') ?S)),
      type_confirmed = int (length (filter (\<lambda>s. stop_type s = ''pickup'' \<and> is_confirmed s) ?S)),
      type_pending =
        int (length (filter (\<lambda>s. stop_type s = ''pickup'' \<and> \<not> is_confirmed s) ?S))\<rparr>"
    by (simp add: check_pending_confirmations_def Let_def length_filter_minus
          filter_confirmed_of_type filter_pending_of_type)
  have delivery: "delivery_confirmations ?st =
     \<lparr>type_total = int (length (filter (\<lambda>s. stop_type s = ''delivery'') ?S)),
      type_confirmed = int (length (filter (\<lambda>s. stop_type s = ''delivery'' \<and> is_confirmed s) ?S)),
      type_pending =
        int (length (filter (\<lambda>s. stop_type s = ''delivery'' \<and> \<not> is_confirmed s) ?S))\<rparr>"
    by (simp add: check_pending_confirmations_def Let_def length_filter_minus
          filter_confirmed_of_type filter_pending_of_type)
  have rate: "confirmation_rate ?st =
     (if ?S = [] then 0
      else real (length (filter is_confirmed ?S)) / real (length ?S) * 100)"
    by (simp add: check_pending_confirmations_def Let_def)
  have ready: "ready_for_execution ?st \<longleftrightarrow> pending_stops ?st = 0"
    by (simp add: check_pending_confirmations_def Let_def)
  have "pending_stops ?st = 0 \<longleftrightarrow> filter (\<lambda>s. \<not> is_confirmed s) ?S = []"
    unfolding pending by simp
  also have "\<dots> \<longleftrightarrow> (\<forall>s\<in>set ?S. is_confirmed s)"
    by (simp add: filter_empty_conv)
  finally have all: "ready_for_execution ?st \<longleftrightarrow> (\<forall>s\<in>set ?S. is_confirmed s)"
    using ready by simp
  show ?thesis
    using total confirmed pending pickup delivery rate ready all by blast
qed

theorem check_pending_confirmations_counts_witness:
  "route_stops example_database example_route = [example_pickup_stop, example_delivery_stop] \<and>
   total_stops (check_pending_confirmations example_database example_route) = 2 \<and>
   confirmed_stops (check_pending_confirmations example_database example_route) = 1 \<and>
   pending_stops (check_pending_confirmations example_database example_route) = 1 \<and>
   confirmation_rate (check_pending_confirmations example_database example_route) = 50 \<and>
   \<not> ready_for_execution (check_pending_confirmations example_database example_route) \<and>
   \<not> is_confirmed example_pickup_stop"
proof -
  have S: "route_stops example_database example_route =
             [example_pickup_stop, example_delivery_stop]"
    by code_simp
  have c: "\<not> is_confirmed example_pickup_stop" "is_confirmed example_delivery_stop"
    by (simp_all add: example_pickup_stop_def example_delivery_stop_def)
  from check_pending_confirmations_counts[of example_database example_route] S c
  show ?thesis by simp
qed

subsection \<open>Batch senders\<close>


lemma fold_max_ge_init: "(a::nat) \<le> fold max xs a"
proof (induction xs arbitrary: a)
  case Nil
  show ?case by simp
next
  case (Cons x xs)
  have "a \<le> max x a" by simp
  also have "\<dots> \<le> fold max xs (max x a)" by (rule Cons.IH)
  finally show ?case by simp
qed

lemma fold_max_ge_member: "x \<in> set xs \<Longrightarrow> (x::nat) \<le> fold max xs a"
proof (induction xs arbitrary: a)
  case Nil
  then show ?case by simp
next
  case (Cons y xs)
  show ?case
  proof (cases "x = y")
    case True
    have "x \<le> max y a" using True by simp
    also have "\<dots> \<le> fold max xs (max y a)" by (rule fold_max_ge_init)
    finally show ?thesis by simp
  next
    case False
    with Cons.prems have "x \<in> set xs" by simp
    from Cons.IH[OF this] show ?thesis by simp
  qed
qed

lemma fresh_notification_id_new:
  assumes "n \<in> set (notifications db)"
  shows "notification_id n \<noteq> fresh_notification_id db"
proof -
  have "notification_id n \<in> set (map notification_id (notifications db))"
    using assms by simp
  from fold_max_ge_member[OF this, of 0]
  show ?thesis by (simp add: fresh_notification_id_def)
qed

lemma save_new_row:
  assumes "\<forall>r\<in>set (notifications db). notification_id r \<noteq> notification_id n"
    and "notification_id n' = notification_id n"
  shows "save_notification n' (db\<lparr>notifications := notifications db @ [n]\<rparr>) =
           db\<lparr>notifications := notifications db @ [n']\<rparr>"
proof -
  have "map (\<lambda>r. if notification_id r = notification_id n' then n' else r) (notifications db) =
          notifications db"
    using assms by (simp add: map_idI)
  then show ?thesis
    using assms(2) by (simp add: save_notification_def)
qed

lemma create_and_send:
  assumes "\<not> create_raises env s"
  shows "(case create_notification env now db s ty rc sj bd of
            Inl e \<Rightarrow> other
          | Inr (n, db1) \<Rightarrow> send_email env now db1 s n) =
         (\<not> save_raises env s,
          db\<lparr>notifications := notifications db @ [notification_row env now db s ty rc sj bd]\<rparr>)"
proof (cases "save_raises env s")
  case True
  then show ?thesis
    using assms by (simp add: create_notification_def send_email_def notification_row_def Let_def)
next
  case False
  let ?n = "\<lparr>notification_id = fresh_notification_id db,
             notification_type = ty, recipient_email = rc,
             subject = sj, message_body = bd,
             notification_route_stop = Some (stop_id s),
             sent_at = None, is_sent = False, response_received = False,
             response_content = [], created_at = now\<rparr>"
  have fresh: "\<forall>r\<in>set (notifications db). notification_id r \<noteq> notification_id ?n"
    using fresh_notification_id_new[of _ db] by simp
  have "save_notification (?n\<lparr>is_sent := True, sent_at := Some now\<rparr>)
          (db\<lparr>notifications := notifications db @ [?n]\<rparr>) =
        db\<lparr>notifications := notifications db @ [?n\<lparr>is_sent := True, sent_at := Some now\<rparr>]\<rparr>"
    by (rule save_new_row[OF fresh]) simp
  then show ?thesis
    using assms False
    by (simp add: create_notification_def send_email_def notification_row_def Let_def)
qed

lemma send_pickup_confirmation_step:
  "send_pickup_confirmation env now route db s =
     (pickup_send_succeeds env s,
      if pickup_recipient s \<noteq> None \<and> \<not> create_raises env s
      then db\<lparr>notifications := notifications db @
             [notification_row env now db s ''pickup_confirmation''
                (the (pickup_recipient s))
                (''Pickup Confirmation Required - '' @ format_date env (scheduled_date route))
                (pickup_confirmation_email env s)]\<rparr>
      else db)"
proof (cases "stop_grocery_store s")
  case None
  then show ?thesis
    by (simp add: send_pickup_confirmation_def pickup_send_succeeds_def pickup_recipient_def)
next
  case (Some st)
  show ?thesis
  proof (cases "create_raises env s")
    case True
    then show ?thesis
      using Some
      by (simp add: send_pickup_confirmation_def pickup_send_succeeds_def
            pickup_recipient_def create_notification_def)
  next
    case False
    show ?thesis
      using Some False
      by (simp add: send_pickup_confirmation_def pickup_send_succeeds_def
            pickup_recipient_def create_and_send[OF False] Let_def)
  qed
qed

lemma send_delivery_confirmation_step:
  "send_delivery_confirmation env now route db s =
     (delivery_send_succeeds env s,
      if delivery_recipient s \<noteq> None \<and> \<not> create_raises env s
      then db\<lparr>notifications := notifications db @
             [notification_row env now db s ''delivery_confirmation''
                (the (delivery_recipient s))
                (''Delivery Schedule Confirmation - '' @ format_date env (scheduled_date route))
                (delivery_confirmation_email env s)]\<rparr>
      else db)"
proof (cases "stop_food_bank s")
  case None
  then show ?thesis
    by (simp add: send_delivery_confirmation_def delivery_send_succeeds_def delivery_recipient_def)
next
  case (Some st)
  show ?thesis
  proof (cases "create_raises env s")
    case True
    then show ?thesis
      using Some
      by (simp add: send_delivery_confirmation_def delivery_send_succeeds_def
            delivery_recipient_def create_notification_def)
  next
    case False
    show ?thesis
      using Some False
      by (simp add: send_delivery_confirmation_def delivery_send_succeeds_def
            delivery_recipient_def create_and_send[OF False] Let_def)
  qed
qed


lemma send_schedule_change_step:
  "send_schedule_change env now route reason db s =
     (if schedule_change_recipient s = None then Inl AttributeError
      else if create_raises env s then Inl DatabaseError
      else Inr (\<not> save_raises env s,
             db\<lparr>notifications := notifications db @
               [notification_row env now db s ''schedule_change''
                  (the (schedule_change_recipient s))
                  (''Schedule Change Notification - '' @ format_date env (scheduled_date route))
                  (schedule_change_email env s reason)]\<rparr>))"
proof (cases "schedule_change_recipient s")
  case None
  then show ?thesis
    by (simp add: send_schedule_change_def schedule_change_recipient_def)
next
  case (Some rc)
  then have rc: "(if stop_type s = ''pickup''
            then map_option store_email (stop_grocery_store s)
            else map_option bank_email (stop_food_bank s)) = Some rc"
    by (simp add: schedule_change_recipient_def)
  show ?thesis
  proof (cases "create_raises env s")
    case True
    then show ?thesis
      using Some rc
      by (simp add: send_schedule_change_def create_notification_def Let_def)
  next
    case False
    have "(case create_notification env now db s ''schedule_change'' rc
                  (''Schedule Change Notification - '' @ format_date env (scheduled_date route))
                  (schedule_change_email env s reason) of
             Inl e \<Rightarrow> Inl e
           | Inr (notification, db1) \<Rightarrow> Inr (send_email env now db1 s notification)) =
          Inr (\<not> save_raises env s,
             db\<lparr>notifications := notifications db @
               [notification_row env now db s ''schedule_change'' rc
                  (''Schedule Change Notification - '' @ format_date env (scheduled_date route))
                  (schedule_change_email env s reason)]\<rparr>)"
      using create_and_send[OF False, of "(False, db)" now db "''schedule_change''" rc
              "''Schedule Change Notification - '' @ format_date env (scheduled_date route)"
              "schedule_change_email env s reason"] False
      by (simp add: create_notification_def Let_def)
    then show ?thesis
      using Some rc False
      by (simp add: send_schedule_change_def Let_def)
  qed
qed

lemma schedule_change_succeeds_alt:
  "schedule_change_succeeds env s \<longleftrightarrow>
     schedule_change_recipient s \<noteq> None \<and> \<not> create_raises env s \<and> \<not> save_raises env s"
  by (simp add: schedule_change_succeeds_def schedule_change_recipient_def)

lemma pickup_send_succeeds_alt:
  "pickup_send_succeeds env s \<longleftrightarrow>
     pickup_recipient s \<noteq> None \<and> \<not> create_raises env s \<and> \<not> save_raises env s"
  by (simp add: pickup_send_succeeds_def pickup_recipient_def)

lemma delivery_send_succeeds_alt:
  "delivery_send_succeeds env s \<longleftrightarrow>
     delivery_recipient s \<noteq> None \<and> \<not> create_raises env s \<and> \<not> save_raises env s"
  by (simp add: delivery_send_succeeds_def delivery_recipient_def)

lemma notifications_for_Nil: "notifications_for env now ty recipient [] []"
  by (simp add: notifications_for_def)

lemma notifications_for_Cons:
  assumes "recipient s = Some rc" and "notifications_for env now ty recipient ss rows"
  shows "notifications_for env now ty recipient (s # ss)
           (notification_row env now db s ty rc sj bd # rows)"
  using assms by (simp add: notifications_for_def notification_row_def)


lemma pickup_confirmations_loop_result:
  "pickup_confirmations_loop env now route xs db a b = (db', a', b') \<Longrightarrow>
   a' = a + int (length (filter (pickup_send_succeeds env) xs)) \<and>
   b' = b + int (length (filter (\<lambda>s. \<not> pickup_send_succeeds env s) xs)) \<and>
   stops db' = stops db \<and>
   (\<exists>rows. notifications db' = notifications db @ rows \<and>
      notifications_for env now ''pickup_confirmation'' pickup_recipient
        (filter (\<lambda>s. pickup_recipient s \<noteq> None \<and> \<not> create_raises env s) xs) rows)"
proof (induction xs arbitrary: db a b)
  case Nil
  then show ?case by (simp add: notifications_for_Nil)
next
  case (Cons s xs)
  let ?ok = "pickup_send_succeeds env s"
  let ?made = "pickup_recipient s \<noteq> None \<and> \<not> create_raises env s"
  let ?row = "notification_row env now db s ''pickup_confirmation''
                (the (pickup_recipient s))
                (''Pickup Confirmation Required - '' @ format_date env (scheduled_date route))
                (pickup_confirmation_email env s)"
  let ?db1 = "if ?made then db\<lparr>notifications := notifications db @ [?row]\<rparr> else db"
  let ?a1 = "if ?ok then a + 1 else a"
  let ?b1 = "if ?ok then b else b + 1"
  have step: "send_pickup_confirmation env now route db s = (?ok, ?db1)"
    by (rule send_pickup_confirmation_step)
  have "pickup_confirmations_loop env now route xs ?db1 ?a1 ?b1 = (db', a', b')"
    using Cons.prems unfolding pickup_confirmations_loop.simps step by (cases ?ok) simp_all
  from Cons.IH[OF this]
  obtain rows where ih:
    "a' = ?a1 + int (length (filter (pickup_send_succeeds env) xs))"
    "b' = ?b1 + int (length (filter (\<lambda>s. \<not> pickup_send_succeeds env s) xs))"
    "stops db' = stops ?db1"
    "notifications db' = notifications ?db1 @ rows"
    "notifications_for env now ''pickup_confirmation'' pickup_recipient
        (filter (\<lambda>s. pickup_recipient s \<noteq> None \<and> \<not> create_raises env s) xs) rows"
    by blast
  have tally: "a' = a + int (length (filter (pickup_send_succeeds env) (s # xs)))"
    "b' = b + int (length (filter (\<lambda>s. \<not> pickup_send_succeeds env s) (s # xs)))"
    using ih(1,2) by simp_all
  have st: "stops db' = stops db"
    using ih(3) by simp
  show ?case
  proof (cases ?made)
    case False
    then have "notifications db' = notifications db @ rows"
      using ih(4) by simp
    with False ih(5) tally st show ?thesis by auto
  next
    case True
    then obtain rc where rc: "pickup_recipient s = Some rc" by auto
    have "notifications db' = notifications db @ (?row # rows)"
      using ih(4) True by simp
    moreover have "notifications_for env now ''pickup_confirmation'' pickup_recipient
        (filter (\<lambda>s. pickup_recipient s \<noteq> None \<and> \<not> create_raises env s) (s # xs))
        (?row # rows)"
      using notifications_for_Cons[OF rc ih(5)] True rc by simp
    ultimately show ?thesis using tally st by blast
  qed
qed

lemma delivery_confirmations_loop_result:
  "delivery_confirmations_loop env now route xs db a b = (db', a', b') \<Longrightarrow>
   a' = a + int (length (filter (delivery_send_succeeds env) xs)) \<and>
   b' = b + int (length (filter (\<lambda>s. \<not> delivery_send_succeeds env s) xs)) \<and>
   stops db' = stops db \<and>
   (\<exists>rows. notifications db' = notifications db @ rows \<and>
      notifications_for env now ''delivery_confirmation'' delivery_recipient
        (filter (\<lambda>s. delivery_recipient s \<noteq> None \<and> \<not> create_raises env s) xs) rows)"
proof (induction xs arbitrary: db a b)
  case Nil
  then show ?case by (simp add: notifications_for_Nil)
next
  case (Cons s xs)
  let ?ok = "delivery_send_succeeds env s"
  let ?made = "delivery_recipient s \<noteq> None \<and> \<not> create_raises env s"
  let ?row = "notification_row env now db s ''delivery_confirmation''
                (the (delivery_recipient s))
                (''Delivery Schedule Confirmation - '' @ format_date env (scheduled_date route))
                (delivery_confirmation_email env s)"
  let ?db1 = "if ?made then db\<lparr>notifications := notifications db @ [?row]\<rparr> else db"
  let ?a1 = "if ?ok then a + 1 else a"
  let ?b1 = "if ?ok then b else b + 1"
  have step: "send_delivery_confirmation env now route db s = (?ok, ?db1)"
    by (rule send_delivery_confirmation_step)
  have "delivery_confirmations_loop env now route xs ?db1 ?a1 ?b1 = (db', a', b')"
    using Cons.prems unfolding delivery_confirmations_loop.simps step by (cases ?ok) simp_all
  from Cons.IH[OF this]
  obtain rows where ih:
    "a' = ?a1 + int (length (filter (delivery_send_succeeds env) xs))"
    "b' = ?b1 + int (length (filter (\<lambda>s. \<not> delivery_send_succeeds env s) xs))"
    "stops db' = stops ?db1"
    "notifications db' = notifications ?db1 @ rows"
    "notifications_for env now ''delivery_confirmation'' delivery_recipient
        (filter (\<lambda>s. delivery_recipient s \<noteq> None \<and> \<not> create_raises env s) xs) rows"
    by blast
  have tally: "a' = a + int (length (filter (delivery_send_succeeds env) (s # xs)))"
    "b' = b + int (length (filter (\<lambda>s. \<not> delivery_send_succeeds env s) (s # xs)))"
    using ih(1,2) by simp_all
  have st: "stops db' = stops db"
    using ih(3) by simp
  show ?case
  proof (cases ?made)
    case False
    then have "notifications db' = notifications db @ rows"
      using ih(4) by simp
    with False ih(5) tally st show ?thesis by auto
  next
    case True
    then obtain rc where rc: "delivery_recipient s = Some rc" by auto
    have "notifications db' = notifications db @ (?row # rows)"
      using ih(4) True by simp
    moreover have "notifications_for env now ''delivery_confirmation'' delivery_recipient
        (filter (\<lambda>s. delivery_recipient s \<noteq> None \<and> \<not> create_raises env s) (s # xs))
        (?row # rows)"
      using notifications_for_Cons[OF rc ih(5)] True rc by simp
    ultimately show ?thesis using tally st by blast
  qed
qed

lemma schedule_change_loop_result:
  "schedule_change_loop env now route reason xs db a b = (db', a', b') \<Longrightarrow>
   a' = a + int (length (filter (schedule_change_succeeds env) xs)) \<and>
   b' = b + int (length (filter (\<lambda>s. \<not> schedule_change_succeeds env s) xs)) \<and>
   stops db' = stops db \<and>
   (\<exists>rows. notifications db' = notifications db @ rows \<and>
      notifications_for env now ''schedule_change'' schedule_change_recipient
        (filter (\<lambda>s. schedule_change_recipient s \<noteq> None \<and> \<not> create_raises env s) xs)
        rows)"
proof (induction xs arbitrary: db a b)
  case Nil
  then show ?case by (simp add: notifications_for_Nil)
next
  case (Cons s xs)
  let ?ok = "schedule_change_succeeds env s"
  let ?made = "schedule_change_recipient s \<noteq> None \<and> \<not> create_raises env s"
  let ?row = "notification_row env now db s ''schedule_change''
                (the (schedule_change_recipient s))
                (''Schedule Change Notification - '' @ format_date env (scheduled_date route))
                (schedule_change_email env s reason)"
  let ?db1 = "if ?made then db\<lparr>notifications := notifications db @ [?row]\<rparr> else db"
  let ?a1 = "if ?ok then a + 1 else a"
  let ?b1 = "if ?ok then b else b + 1"
  note step = send_schedule_change_step[of env now route reason db s]
  have "schedule_change_loop env now route reason xs ?db1 ?a1 ?b1 = (db', a', b')"
    using Cons.prems unfolding schedule_change_loop.simps step
    by (auto simp: schedule_change_succeeds_alt split: if_splits)
  from Cons.IH[OF this]
  obtain rows where ih:
    "a' = ?a1 + int (length (filter (schedule_change_succeeds env) xs))"
    "b' = ?b1 + int (length (filter (\<lambda>s. \<not> schedule_change_succeeds env s) xs))"
    "stops db' = stops ?db1"
    "notifications db' = notifications ?db1 @ rows"
    "notifications_for env now ''schedule_change'' schedule_change_recipient
        (filter (\<lambda>s. schedule_change_recipient s \<noteq> None \<and> \<not> create_raises env s) xs)
        rows"
    by blast
  have tally: "a' = a + int (length (filter (schedule_change_succeeds env) (s # xs)))"
    "b' = b + int (length (filter (\<lambda>s. \<not> schedule_change_succeeds env s) (s # xs)))"
    using ih(1,2) by simp_all
  have st: "stops db' = stops db"
    using ih(3) by simp
  show ?case
  proof (cases ?made)
    case False
    then have "notifications db' = notifications db @ rows"
      using ih(4) by simp
    with False ih(5) tally st show ?thesis by auto
  next
    case True
    then obtain rc where rc: "schedule_change_recipient s = Some rc" by auto
    have "notifications db' = notifications db @ (?row # rows)"
      using ih(4) True by simp
    moreover have "notifications_for env now ''schedule_change'' schedule_change_recipient
        (filter (\<lambda>s. schedule_change_recipient s \<noteq> None \<and> \<not> create_raises env s)
           (s # xs))
        (?row # rows)"
      using notifications_for_Cons[OF rc ih(5)] True rc by simp
    ultimately show ?thesis using tally st by blast
  qed
qed


lemma send_pickup_confirmations_result:
  assumes "\<not> stops_query_raises env route"
  shows "\<exists>r db'. send_pickup_confirmations env now db route = Inr (r, db') \<and>
     total r = int (length (filter (\<lambda>s. stop_type s = ''pickup'') (route_stops db route))) \<and>
     sent r = int (length (filter (pickup_send_succeeds env)
                (filter (\<lambda>s. stop_type s = ''pickup'') (route_stops db route)))) \<and>
     failed r = int (length (filter (\<lambda>s. \<not> pickup_send_succeeds env s)
                (filter (\<lambda>s. stop_type s = ''pickup'') (route_stops db route)))) \<and>
     stops db' = stops db \<and>
     (\<exists>rows. notifications db' = notifications db @ rows \<and>
        notifications_for env now ''pickup_confirmation'' pickup_recipient
          (filter (\<lambda>s. pickup_recipient s \<noteq> None \<and> \<not> create_raises env s)
             (filter (\<lambda>s. stop_type s = ''pickup'') (route_stops db route))) rows)"
proof -
  let ?xs = "filter (\<lambda>s. stop_type s = ''pickup'') (route_stops db route)"
  obtain db' a b where L: "pickup_confirmations_loop env now route ?xs db 0 0 = (db', a, b)"
    by (cases "pickup_confirmations_loop env now route ?xs db 0 0") auto
  have "send_pickup_confirmations env now db route =
          Inr (\<lparr>sent = a, failed = b, total = int (length ?xs)\<rparr>, db')"
    using assms L by (simp add: send_pickup_confirmations_def)
  with pickup_confirmations_loop_result[OF L] show ?thesis by simp
qed

lemma send_delivery_confirmations_result:
  assumes "\<not> stops_query_raises env route"
  shows "\<exists>r db'. send_delivery_confirmations env now db route = Inr (r, db') \<and>
     total r = int (length (filter (\<lambda>s. stop_type s = ''delivery'') (route_stops db route))) \<and>
     sent r = int (length (filter (delivery_send_succeeds env)
                (filter (\<lambda>s. stop_type s = ''delivery'') (route_stops db route)))) \<and>
     failed r = int (length (filter (\<lambda>s. \<not> delivery_send_succeeds env s)
                (filter (\<lambda>s. stop_type s = ''delivery'') (route_stops db route)))) \<and>
     stops db' = stops db \<and>
     (\<exists>rows. notifications db' = notifications db @ rows \<and>
        notifications_for env now ''delivery_confirmation'' delivery_recipient
          (filter (\<lambda>s. delivery_recipient s \<noteq> None \<and> \<not> create_raises env s)
             (filter (\<lambda>s. stop_type s = ''delivery'') (route_stops db route))) rows)"
proof -
  let ?xs = "filter (\<lambda>s. stop_type s = ''delivery'') (route_stops db route)"
  obtain db' a b where L: "delivery_confirmations_loop env now route ?xs db 0 0 = (db', a, b)"
    by (cases "delivery_confirmations_loop env now route ?xs db 0 0") auto
  have "send_delivery_confirmations env now db route =
          Inr (\<lparr>sent = a, failed = b, total = int (length ?xs)\<rparr>, db')"
    using assms L by (simp add: send_delivery_confirmations_def)
  with delivery_confirmations_loop_result[OF L] show ?thesis by simp
qed

lemma send_schedule_change_notifications_result:
  assumes "\<not> stops_query_raises env route"
  shows "\<exists>r db'. send_schedule_change_notifications env now db route reason = Inr (r, db') \<and>
     total r = int (length (route_stops db route)) \<and>
     sent r = int (length (filter (schedule_change_succeeds env) (route_stops db route))) \<and>
     failed r = int (length (filter (\<lambda>s. \<not> schedule_change_succeeds env s)
                  (route_stops db route))) \<and>
     stops db' = stops db \<and>
     (\<exists>rows. notifications db' = notifications db @ rows \<and>
        notifications_for env now ''schedule_change'' schedule_change_recipient
          (filter (\<lambda>s. schedule_change_recipient s \<noteq> None \<and> \<not> create_raises env s)
             (route_stops db route)) rows)"
proof -
  let ?xs = "route_stops db route"
  obtain db' a b where
    L: "schedule_change_loop env now route reason ?xs db 0 0 = (db', a, b)"
    by (cases "schedule_change_loop env now route reason ?xs db 0 0") auto
  have "send_schedule_change_notifications env now db route reason =
          Inr (\<lparr>sent = a, failed = b, total = int (length ?xs)\<rparr>, db')"
    using assms L by (simp add: send_schedule_change_notifications_def)
  with schedule_change_loop_result[OF L] show ?thesis by simp
qed

lemma length_filter_split:
  "int (length (filter P xs)) + int (length (filter (\<lambda>x. \<not> P x) xs)) = int (length xs)"
  using sum_length_filter_compl[of P xs] by linarith

lemma example_route_stops:
  "route_stops example_database example_route = [example_pickup_stop, example_delivery_stop]"
  by code_simp

text \<open>Claim C9, as the code has it. The query for the stops of the route runs
  outside every \<^verbatim>\<open>try\<close>, so the claim holds when that query does not raise.
  Then each of the three batch senders returns its tally and never an error.
  \<open>total\<close> counts the stops of its subset (the pickups, the deliveries, all
  stops of the route); \<open>sent\<close> counts the stops whose message went out and
  \<open>failed\<close> all the others, so \<open>sent + failed = total\<close>: a stop without
  recipient, or for which creating or saving the notification raises, adds one
  to \<open>failed\<close> and the stops after it are still processed. The stop table is
  unchanged, and the notification table grows, in the order of the stops, by
  exactly one row for every stop of the subset that has a recipient and whose
  notification could be created; the row is marked as sent exactly when saving
  it did not raise.\<close>

theorem batch_senders_best_effort:
  assumes "\<not> stops_query_raises env route"
  shows
    "(\<exists>r db'. send_pickup_confirmations env now db route = Inr (r, db') \<and>
        total r = int (length (filter (\<lambda>s. stop_type s = ''pickup'') (route_stops db route))) \<and>
        sent r = int (length (filter (pickup_send_succeeds env)
                   (filter (\<lambda>s. stop_type s = ''pickup'') (route_stops db route)))) \<and>
        failed r = int (length (filter (\<lambda>s. \<not> pickup_send_succeeds env s)
                   (filter (\<lambda>s. stop_type s = ''pickup'') (route_stops db route)))) \<and>
        sent r + failed r = total r \<and>
        stops db' = stops db \<and>
        (\<exists>rows. notifications db' = notifications db @ rows \<and>
           notifications_for env now ''pickup_confirmation'' pickup_recipient
             (filter (\<lambda>s. pickup_recipient s \<noteq> None \<and> \<not> create_raises env s)
                (filter (\<lambda>s. stop_type s = ''pickup'') (route_stops db route))) rows)) \<and>
     (\<exists>r db'. send_delivery_confirmations env now db route = Inr (r, db') \<and>
        total r = int (length (filter (\<lambda>s. stop_type s = ''delivery'') (route_stops db route))) \<and>
        sent r = int (length (filter (delivery_send_succeeds env)
                   (filter (\<lambda>s. stop_type s = ''delivery'') (route_stops db route)))) \<and>
        failed r = int (length (filter (\<lambda>s. \<not> delivery_send_succeeds env s)
                   (filter (\<lambda>s. stop_type s = ''delivery'') (route_stops db route)))) \<and>
        sent r + failed r = total r \<and>
        stops db' = stops db \<and>
        (\<exists>rows. notifications db' = notifications db @ rows \<and>
           notifications_for env now ''delivery_confirmation'' delivery_recipient
             (filter (\<lambda>s. delivery_recipient s \<noteq> None \<and> \<not> create_raises env s)
                (filter (\<lambda>s. stop_type s = ''delivery'') (route_stops db route))) rows)) \<and>
     (\<exists>r db'. send_schedule_change_notifications env now db route reason = Inr (r, db') \<and>
        total r = int (length (route_stops db route)) \<and>
        sent r = int (length (filter (schedule_change_succeeds env) (route_stops db route))) \<and>
        failed r = int (length (filter (\<lambda>s. \<not> schedule_change_succeeds env s)
                     (route_stops db route))) \<and>
        sent r + failed r = total r \<and>
        stops db' = stops db \<and>
        (\<exists>rows. notifications db' = notifications db @ rows \<and>
           notifications_for env now ''schedule_change'' schedule_change_recipient
             (filter (\<lambda>s. schedule_change_recipient s \<noteq> None \<and> \<not> create_raises env s)
                (route_stops db route)) rows))"
proof (intro conjI)
  from send_pickup_confirmations_result[OF assms, of now db]
  obtain r db' where *: "send_pickup_confirmations env now db route = Inr (r, db')"
    "total r = int (length (filter (\<lambda>s. stop_type s = ''pickup'') (route_stops db route)))"
    "sent r = int (length (filter (pickup_send_succeeds env)
                (filter (\<lambda>s. stop_type s = ''pickup'') (route_stops db route))))"
    "failed r = int (length (filter (\<lambda>s. \<not> pickup_send_succeeds env s)
                (filter (\<lambda>s. stop_type s = ''pickup'') (route_stops db route))))"
    "stops db' = stops db"
    "\<exists>rows. notifications db' = notifications db @ rows \<and>
        notifications_for env now ''pickup_confirmation'' pickup_recipient
          (filter (\<lambda>s. pickup_recipient s \<noteq> None \<and> \<not> create_raises env s)
             (filter (\<lambda>s. stop_type s = ''pickup'') (route_stops db route))) rows"
    by blast
  have "sent r + failed r = total r"
    unfolding *(2,3,4) by (rule length_filter_split)
  with * show "\<exists>r db'. send_pickup_confirmations env now db route = Inr (r, db') \<and>
        total r = int (length (filter (\<lambda>s. stop_type s = ''pickup'') (route_stops db route))) \<and>
        sent r = int (length (filter (pickup_send_succeeds env)
                   (filter (\<lambda>s. stop_type s = ''pickup'') (route_stops db route)))) \<and>
        failed r = int (length (filter (\<lambda>s. \<not> pickup_send_succeeds env s)
                   (filter (\<lambda>s. stop_type s = ''pickup'') (route_stops db route)))) \<and>
        sent r + failed r = total r \<and>
        stops db' = stops db \<and>
        (\<exists>rows. notifications db' = notifications db @ rows \<and>
           notifications_for env now ''pickup_confirmation'' pickup_recipient
             (filter (\<lambda>s. pickup_recipient s \<noteq> None \<and> \<not> create_raises env s)
                (filter (\<lambda>s. stop_type s = ''pickup'') (route_stops db route))) rows)"
    by blast
next
  from send_delivery_confirmations_result[OF assms, of now db]
  obtain r db' where *: "send_delivery_confirmations env now db route = Inr (r, db')"
    "total r = int (length (filter (\<lambda>s. stop_type s = ''delivery'') (route_stops db route)))"
    "sent r = int (length (filter (delivery_send_succeeds env)
                (filter (\<lambda>s. stop_type s = ''delivery'') (route_stops db route))))"
    "failed r = int (length (filter (\<lambda>s. \<not> delivery_send_succeeds env s)
                (filter (\<lambda>s. stop_type s = ''delivery'') (route_stops db route))))"
    "stops db' = stops db"
    "\<exists>rows. notifications db' = notifications db @ rows \<and>
        notifications_for env now ''delivery_confirmation'' delivery_recipient
          (filter (\<lambda>s. delivery_recipient s \<noteq> None \<and> \<not> create_raises env s)
             (filter (\<lambda>s. stop_type s = ''delivery'') (route_stops db route))) rows"
    by blast
  have "sent r + failed r = total r"
    unfolding *(2,3,4) by (rule length_filter_split)
  with * show "\<exists>r db'. send_delivery_confirmations env now db route = Inr (r, db') \<and>
        total r = int (length (filter (\<lambda>s. stop_type s = ''delivery'') (route_stops db route))) \<and>
        sent r = int (length (filter (delivery_send_succeeds env)
                   (filter (\<lambda>s. stop_type s = ''delivery'') (route_stops db route)))) \<and>
        failed r = int (length (filter (\<lambda>s. \<not> delivery_send_succeeds env s)
                   (filter (\<lambda>s. stop_type s = ''delivery'') (route_stops db route)))) \<and>
        sent r + failed r = total r \<and>
        stops db' = stops db \<and>
        (\<exists>rows. notifications db' = notifications db @ rows \<and>
           notifications_for env now ''delivery_confirmation'' delivery_recipient
             (filter (\<lambda>s. delivery_recipient s \<noteq> None \<and> \<not> create_raises env s)
                (filter (\<lambda>s. stop_type s = ''delivery'') (route_stops db route))) rows)"
    by blast
next
  from send_schedule_change_notifications_result[OF assms, of now db reason]
  obtain r db' where
    *: "send_schedule_change_notifications env now db route reason = Inr (r, db')"
    "total r = int (length (route_stops db route))"
    "sent r = int (length (filter (schedule_change_succeeds env) (route_stops db route)))"
    "failed r = int (length (filter (\<lambda>s. \<not> schedule_change_succeeds env s)
                  (route_stops db route)))"
    "stops db' = stops db"
    "\<exists>rows. notifications db' = notifications db @ rows \<and>
        notifications_for env now ''schedule_change'' schedule_change_recipient
          (filter (\<lambda>s. schedule_change_recipient s \<noteq> None \<and> \<not> create_raises env s)
             (route_stops db route)) rows"
    by blast
  have "sent r + failed r = total r"
    unfolding *(2,3,4) by (rule length_filter_split)
  with * show "\<exists>r db'. send_schedule_change_notifications env now db route reason = Inr (r, db') \<and>
        total r = int (length (route_stops db route)) \<and>
        sent r = int (length (filter (schedule_change_succeeds env) (route_stops db route))) \<and>
        failed r = int (length (filter (\<lambda>s. \<not> schedule_change_succeeds env s)
                     (route_stops db route))) \<and>
        sent r + failed r = total r \<and>
        stops db' = stops db \<and>
        (\<exists>rows. notifications db' = notifications db @ rows \<and>
           notifications_for env now ''schedule_change'' schedule_change_recipient
             (filter (\<lambda>s. schedule_change_recipient s \<noteq> None \<and> \<not> create_raises env s)
                (route_stops db route)) rows)"
    by blast
qed

text \<open>On the example route, with a reason, the schedule-change sender
  processes both stops although saving the notification of the first one
  raises: one sent, one failed, and two new rows, of which the second is marked
  as sent.\<close>

theorem batch_senders_best_effort_witness:
  "\<not> stops_query_raises example_collaborators example_route \<and>
   (\<exists>r db'. send_schedule_change_notifications example_collaborators 200 example_database
               example_route ''Truck breakdown'' = Inr (r, db') \<and>
      sent r = 1 \<and> failed r = 1 \<and> total r = 2 \<and>
      stops db' = stops example_database \<and>
      (\<exists>rows. notifications db' = notifications example_database @ rows \<and>
         map notification_route_stop rows = [Some 1, Some 2] \<and>
         map recipient_email rows = [''store@example.org'', ''bank@example.org''] \<and>
         map is_sent rows = [False, True] \<and>
         map sent_at rows = [None, Some 200]))"
proof -
  have q: "\<not> stops_query_raises example_collaborators example_route"
    by (simp add: example_collaborators_def)
  have ok: "\<not> schedule_change_succeeds example_collaborators example_pickup_stop"
    "schedule_change_succeeds example_collaborators example_delivery_stop"
    by (simp_all add: schedule_change_succeeds_def example_collaborators_def
          example_pickup_stop_def example_delivery_stop_def)
  have rc: "schedule_change_recipient example_pickup_stop = Some ''store@example.org''"
    "schedule_change_recipient example_delivery_stop = Some ''bank@example.org''"
    by (simp_all add: schedule_change_recipient_def example_pickup_stop_def
          example_delivery_stop_def example_store_def example_bank_def)
  have cr: "\<not> create_raises example_collaborators example_pickup_stop"
    "\<not> create_raises example_collaborators example_delivery_stop"
    by (simp_all add: example_collaborators_def)
  have sv: "save_raises example_collaborators example_pickup_stop"
    "\<not> save_raises example_collaborators example_delivery_stop"
    by (simp_all add: example_collaborators_def example_pickup_stop_def
          example_delivery_stop_def)
  have id: "stop_id example_pickup_stop = 1" "stop_id example_delivery_stop = 2"
    by (simp_all add: example_pickup_stop_def example_delivery_stop_def)
  from batch_senders_best_effort[OF q, of 200 example_database "''Truck breakdown''"]
  obtain r db' rows where *:
    "send_schedule_change_notifications example_collaborators 200 example_database
       example_route ''Truck breakdown'' = Inr (r, db')"
    "total r = int (length (route_stops example_database example_route))"
    "sent r = int (length (filter (schedule_change_succeeds example_collaborators)
                (route_stops example_database example_route)))"
    "failed r = int (length (filter (\<lambda>s. \<not> schedule_change_succeeds example_collaborators s)
                  (route_stops example_database example_route)))"
    "stops db' = stops example_database"
    "notifications db' = notifications example_database @ rows"
    "notifications_for example_collaborators 200 ''schedule_change'' schedule_change_recipient
       (filter (\<lambda>s. schedule_change_recipient s \<noteq> None \<and>
                     \<not> create_raises example_collaborators s)
          (route_stops example_database example_route)) rows"
    by blast
  have t: "sent r = 1" "failed r = 1" "total r = 2"
    using *(2,3,4) ok by (simp_all add: example_route_stops)
  have n: "map notification_route_stop rows = [Some 1, Some 2]"
    "map (\<lambda>n. Some (recipient_email n)) rows =
       [Some ''store@example.org'', Some ''bank@example.org'']"
    "map is_sent rows = [False, True]"
    "map sent_at rows = [None, Some 200]"
    using *(7) rc cr sv id
    by (simp_all add: notifications_for_def example_route_stops)
  from n(2) have e: "map recipient_email rows = [''store@example.org'', ''bank@example.org'']"
    by (auto simp: map_eq_Cons_conv)
  show ?thesis
    by (simp add: q *(1) t *(5) *(6) n(1,3,4) e)
qed

text \<open>Claim C9, as the specification has it, does not hold: when the query for
  the stops of the route raises, the sender raises too and returns no tally.\<close>

theorem batch_sender_raises_on_query_error:
  "stops_query_raises failing_store_collaborators example_route \<and>
   send_pickup_confirmations failing_store_collaborators 200 example_database example_route =
     Inl DatabaseError \<and>
   send_delivery_confirmations failing_store_collaborators 200 example_database example_route =
     Inl DatabaseError \<and>
   send_schedule_change_notifications failing_store_collaborators 200 example_database
     example_route ''Truck breakdown'' = Inl DatabaseError"
  by (simp add: failing_store_collaborators_def send_pickup_confirmations_def
        send_delivery_confirmations_def send_schedule_change_notifications_def)


section \<open>Properties of the route optimiser\<close>

subsection \<open>Arithmetic\<close>

lemma bind_err_simps [simp]:
  "bind_err (Inl e) f = Inl e"
  "bind_err (Inr x) f = f x"
  by (simp_all add: bind_err_def)

lemma py_add_simps:
  "py_add (PyInt i) (PyInt j) = Inr (PyInt (i + j))"
  "py_add (PyInt i) (PyFloat y) = Inr (PyFloat (real_of_int i + y))"
  "py_add (PyInt i) (PyDecimal y) = Inr (PyDecimal (real_of_int i + y))"
  "py_add (PyFloat x) (PyInt j) = Inr (PyFloat (x + real_of_int j))"
  "py_add (PyFloat x) (PyFloat y) = Inr (PyFloat (x + y))"
  "py_add (PyFloat x) (PyDecimal y) = Inl TypeError"
  "py_add (PyDecimal x) (PyInt j) = Inr (PyDecimal (x + real_of_int j))"
  "py_add (PyDecimal x) (PyFloat y) = Inl TypeError"
  "py_add (PyDecimal x) (PyDecimal y) = Inr (PyDecimal (x + y))"
  by (simp_all add: py_add_def py_binop_def)

lemma py_sub_simps:
  "py_sub (PyInt i) (PyInt j) = Inr (PyInt (i - j))"
  "py_sub (PyInt i) (PyFloat y) = Inr (PyFloat (real_of_int i - y))"
  "py_sub (PyInt i) (PyDecimal y) = Inr (PyDecimal (real_of_int i - y))"
  "py_sub (PyFloat x) (PyInt j) = Inr (PyFloat (x - real_of_int j))"
  "py_sub (PyFloat x) (PyFloat y) = Inr (PyFloat (x - y))"
  "py_sub (PyFloat x) (PyDecimal y) = Inl TypeError"
  "py_sub (PyDecimal x) (PyInt j) = Inr (PyDecimal (x - real_of_int j))"
  "py_sub (PyDecimal x) (PyFloat y) = Inl TypeError"
  "py_sub (PyDecimal x) (PyDecimal y) = Inr (PyDecimal (x - y))"
  by (simp_all add: py_sub_def py_binop_def)

lemma py_mul_simps:
  "py_mul (PyInt i) (PyInt j) = Inr (PyInt (i * j))"
  "py_mul (PyInt i) (PyFloat y) = Inr (PyFloat (real_of_int i * y))"
  "py_mul (PyInt i) (PyDecimal y) = Inr (PyDecimal (real_of_int i * y))"
  "py_mul (PyFloat x) (PyInt j) = Inr (PyFloat (x * real_of_int j))"
  "py_mul (PyFloat x) (PyFloat y) = Inr (PyFloat (x * y))"
  "py_mul (PyFloat x) (PyDecimal y) = Inl TypeError"
  "py_mul (PyDecimal x) (PyInt j) = Inr (PyDecimal (x * real_of_int j))"
  "py_mul (PyDecimal x) (PyFloat y) = Inl TypeError"
  "py_mul (PyDecimal x) (PyDecimal y) = Inr (PyDecimal (x * y))"
  by (simp_all add: py_mul_def py_binop_def)

lemma py_truediv_simps:
  "py_truediv (PyInt i) (PyInt j) =
     (if j = 0 then Inl ZeroDivisionError else Inr (PyFloat (real_of_int i / real_of_int j)))"
  "py_truediv (PyFloat x) (PyInt j) =
     (if j = 0 then Inl ZeroDivisionError else Inr (PyFloat (x / real_of_int j)))"
  "py_truediv (PyDecimal x) (PyInt j) =
     (if j = 0 then (if x = 0 then Inl InvalidOperation else Inl ZeroDivisionError)
      else Inr (PyDecimal (x / real_of_int j)))"
  by (simp_all add: py_truediv_def)

lemma py_sum_simps:
  "py_sum [] = Inr (PyInt 0)"
  "py_sum [PyInt i] = Inr (PyInt i)"
  "py_sum [PyFloat x] = Inr (PyFloat x)"
  "py_sum [PyDecimal x] = Inr (PyDecimal x)"
  by (simp_all add: py_sum_def py_add_simps)

lemmas py_arith = py_add_simps py_sub_simps py_mul_simps py_truediv_simps py_sum_simps
  py_less_def py_min100_def

subsection \<open>The example rows\<close>

lemma example_donation_sell_by_fields:
  "donation_store example_donation_sell_by = example_store"
  "quantity_pounds example_donation_sell_by = PyDecimal 20"
  "expiration_date example_donation_sell_by = None"
  "sell_by_date example_donation_sell_by = Some 20001"
  by (simp_all add: example_donation_sell_by_def)

lemma example_donation_expiring_fields:
  "donation_store example_donation_expiring = example_store"
  "quantity_pounds example_donation_expiring = PyDecimal 30"
  "expiration_date example_donation_expiring = Some 20010"
  "sell_by_date example_donation_expiring = None"
  by (simp_all add: example_donation_expiring_def)

lemma memory_donation_fields:
  "donation_store memory_donation = example_store"
  "quantity_pounds memory_donation = PyFloat 20"
  "expiration_date memory_donation = None"
  "sell_by_date memory_donation = Some 20001"
  by (simp_all add: memory_donation_def)

lemma example_bank_fields:
  "bank_id example_bank = 1"
  "daily_average_need_pounds example_bank = 500"
  "storage_capacity_pounds example_bank = 1000"
  "can_self_pickup example_bank = False"
  "bank_is_active example_bank = True"
  by (simp_all add: example_bank_def)

lemma zero_need_bank_fields:
  "bank_id zero_need_bank = 1"
  "daily_average_need_pounds zero_need_bank = 0"
  "storage_capacity_pounds zero_need_bank = 1000"
  "can_self_pickup zero_need_bank = False"
  "bank_is_active zero_need_bank = True"
  by (simp_all add: example_bank_def zero_need_bank_def)

lemma full_zero_need_bank_fields:
  "bank_id full_zero_need_bank = 2"
  "daily_average_need_pounds full_zero_need_bank = 0"
  "storage_capacity_pounds full_zero_need_bank = 10"
  "can_self_pickup full_zero_need_bank = False"
  "bank_is_active full_zero_need_bank = True"
  by (simp_all add: example_bank_def full_zero_need_bank_def)

lemma other_zero_need_bank_fields:
  "bank_id other_zero_need_bank = 3"
  "daily_average_need_pounds other_zero_need_bank = 0"
  "storage_capacity_pounds other_zero_need_bank = 1000"
  "can_self_pickup other_zero_need_bank = False"
  "bank_is_active other_zero_need_bank = True"
  by (simp_all add: example_bank_def other_zero_need_bank_def)

lemma zero_need_banks_distinct:
  "full_zero_need_bank \<noteq> zero_need_bank" "zero_need_bank \<noteq> full_zero_need_bank"
  "full_zero_need_bank \<noteq> other_zero_need_bank" "other_zero_need_bank \<noteq> full_zero_need_bank"
  "zero_need_bank \<noteq> other_zero_need_bank" "other_zero_need_bank \<noteq> zero_need_bank"
  by (simp_all add: example_bank_def zero_need_bank_def full_zero_need_bank_def
        other_zero_need_bank_def)

lemma urgency_examples:
  "urgency_key example_now example_donation_sell_by = 20365"
  "urgency_key example_now example_donation_expiring = 20010"
  by (simp_all add: urgency_key_def example_donation_sell_by_fields
        example_donation_expiring_fields date_of_def example_now_def)

subsection \<open>Order of allocation\<close>

lemma sorted_nth_strict:
  assumes "sorted (map f xs)" "i < length xs" "j < length xs" "f (xs ! i) < f (xs ! j)"
  shows "i < j"
proof (rule ccontr)
  assume "\<not> i < j"
  then have "j \<le> i" by simp
  have "map f xs ! j \<le> map f xs ! i"
    using assms(1) \<open>j \<le> i\<close> by (rule sorted_nth_mono) (simp add: assms(2))
  with assms show False by simp
qed

text \<open>
  Claim C4, as the code has it. Before allocation the donations are sorted,
  stably, by ascending \<open>urgency_key\<close>: the expiration date, or today + 365 days
  for a donation without expiration date; the sell-by date is not read. The
  sorted list is a permutation of the input that keeps the input order among
  donations with equal keys, and of two donations with different keys the one
  with the smaller key stands earlier in it. The allocation loop offers the
  donations to the banks in the order of this list.
\<close>

theorem sorted_donations_by_expiration:
  "sorted (map (urgency_key now) (sorted_donations now donations)) \<and>
   mset (sorted_donations now donations) = mset donations \<and>
   (\<forall>k. filter (\<lambda>d. urgency_key now d = k) (sorted_donations now donations) =
        filter (\<lambda>d. urgency_key now d = k) donations) \<and>
   (\<forall>i j. i < length donations \<and> j < length donations \<and>
          urgency_key now (sorted_donations now donations ! i) <
          urgency_key now (sorted_donations now donations ! j) \<longrightarrow> i < j) \<and>
   (food_banks \<noteq> [] \<longrightarrow>
      allocate_food_to_banks now donations food_banks =
        allocate_loop (sorted_donations now donations) food_banks
          (sum_list (map (\<lambda>bank. int (daily_average_need_pounds bank)) food_banks))
          (fold (\<lambda>bank. AList.update bank []) food_banks [])
          (fold (\<lambda>bank m. m(bank \<mapsto> PyInt 0)) food_banks Map.empty))"
proof (intro conjI allI impI)
  show s: "sorted (map (urgency_key now) (sorted_donations now donations))"
    unfolding sorted_donations_def by (rule sorted_sort_key)
  show "mset (sorted_donations now donations) = mset donations"
    unfolding sorted_donations_def by (rule mset_sort)
  show "filter (\<lambda>d. urgency_key now d = k) (sorted_donations now donations) =
        filter (\<lambda>d. urgency_key now d = k) donations" for k
    unfolding sorted_donations_def by (rule sort_key_stable)
  show "i < j"
    if "i < length donations \<and> j < length donations \<and>
        urgency_key now (sorted_donations now donations ! i) <
        urgency_key now (sorted_donations now donations ! j)" for i j
  proof (rule sorted_nth_strict[OF s])
    show "i < length (sorted_donations now donations)"
      using that by (simp add: sorted_donations_def)
    show "j < length (sorted_donations now donations)"
      using that by (simp add: sorted_donations_def)
    show "urgency_key now (sorted_donations now donations ! i) <
          urgency_key now (sorted_donations now donations ! j)"
      using that by simp
  qed
  show "allocate_food_to_banks now donations food_banks =
        allocate_loop (sorted_donations now donations) food_banks
          (sum_list (map (\<lambda>bank. int (daily_average_need_pounds bank)) food_banks))
          (fold (\<lambda>bank. AList.update bank []) food_banks [])
          (fold (\<lambda>bank m. m(bank \<mapsto> PyInt 0)) food_banks Map.empty)"
    if "food_banks \<noteq> []"
    using that by (simp add: allocate_food_to_banks_def Let_def)
qed

theorem sorted_donations_by_expiration_witness:
  "sorted_donations example_now [example_donation_sell_by, example_donation_expiring] =
     [example_donation_expiring, example_donation_sell_by] \<and>
   urgency_key example_now example_donation_expiring = 20010 \<and>
   urgency_key example_now example_donation_sell_by = 20365 \<and>
   sorted (map (urgency_key example_now)
      (sorted_donations example_now [example_donation_sell_by, example_donation_expiring])) \<and>
   allocate_food_to_banks example_now [example_donation_sell_by, example_donation_expiring]
       [example_bank] =
     allocate_loop [example_donation_expiring, example_donation_sell_by] [example_bank] 500
       [(example_bank, [])] [example_bank \<mapsto> PyInt 0]"
proof -
  have s: "sorted_donations example_now [example_donation_sell_by, example_donation_expiring] =
     [example_donation_expiring, example_donation_sell_by]"
    by (simp add: sorted_donations_def urgency_examples)
  have ne: "[example_bank] \<noteq> []" by simp
  from sorted_donations_by_expiration[of example_now
         "[example_donation_sell_by, example_donation_expiring]" "[example_bank]"] ne
  show ?thesis
    by (simp add: s urgency_examples example_bank_fields)
qed

text \<open>
  The claim C4 speaks of the nearest of the expiration and the sell-by date. A
  donation whose only date is a sell-by date tomorrow is sorted as if it had no
  date, behind a donation that expires in ten days.
\<close>

theorem sorted_donations_ignores_sell_by_date:
  "spec_urgency_date example_now example_donation_sell_by = 20001 \<and>
   spec_urgency_date example_now example_donation_expiring = 20010 \<and>
   sorted_donations example_now [example_donation_sell_by, example_donation_expiring] =
     [example_donation_expiring, example_donation_sell_by]"
  by (simp add: sorted_donations_def urgency_examples spec_urgency_date_def
        example_donation_sell_by_fields example_donation_expiring_fields)


subsection \<open>Banks without need\<close>

lemma py_sub_int_left:
  "\<exists>r. py_sub (PyInt i) w = Inr r \<and> py_val r = real_of_int i - py_val w"
  by (cases w) (simp_all add: py_sub_simps)

lemma bank_score_zero_need:
  "bank_score d b w 0 =
     (if storage_capacity_pounds b = 0
      then Inl (if is_decimal w \<and> py_val w = 0 then InvalidOperation else ZeroDivisionError)
      else if is_decimal w \<and> can_self_pickup b \<and> 50 < py_val (quantity_pounds d)
      then Inl TypeError
      else Inr (if is_decimal w then PyDecimal 0 else PyFloat 0))"
  by (cases w) (simp_all add: bank_score_def py_arith)

lemma bank_score_zero_need_value:
  "bank_score d b w 0 = Inr s \<Longrightarrow> py_val s = 0"
  by (auto simp: bank_score_zero_need split: if_splits)

lemma best_bank_loop_zero_need:
  assumes "\<forall>b\<in>set banks. cw b \<noteq> None"
    and "best = None \<and> bs = PyInt (- 1) \<or> best \<noteq> None \<and> py_val bs = 0"
  shows "best_bank_loop d banks cw 0 best bs =
     (case find (\<lambda>b. has_room cw d b \<and> isl (bank_score d b (the (cw b)) 0)) banks of
        Some b \<Rightarrow> Inl (projl (bank_score d b (the (cw b)) 0))
      | None \<Rightarrow> Inr (case best of Some b \<Rightarrow> Some b | None \<Rightarrow> find (has_room cw d) banks))"
  using assms
proof (induction banks arbitrary: best bs)
  case Nil
  then show ?case by (simp split: option.splits)
next
  case (Cons bank banks)
  from Cons.prems(1) obtain w where w: "cw bank = Some w" by auto
  have rest: "\<forall>b\<in>set banks. cw b \<noteq> None" using Cons.prems(1) by simp
  obtain r where r: "py_sub (PyInt (int (storage_capacity_pounds bank))) w = Inr r"
    "py_val r = real (storage_capacity_pounds bank) - py_val w"
    using py_sub_int_left[of "int (storage_capacity_pounds bank)" w] by auto
  have room: "has_room cw d bank \<longleftrightarrow> \<not> py_less r (quantity_pounds d)"
    using w r(2) by (simp add: has_room_def py_less_def)
  show ?case
  proof (cases "has_room cw d bank")
    case False
    then show ?thesis
      using w r(1) room Cons.IH[OF rest Cons.prems(2)] by (simp split: option.split)
  next
    case True
    show ?thesis
    proof (cases "bank_score d bank w 0")
      case (Inl e)
      then show ?thesis
        using w r(1) room True by simp
    next
      case (Inr s)
      then have s0: "py_val s = 0" by (rule bank_score_zero_need_value)
      show ?thesis
      proof (cases best)
        case None
        then have bs: "bs = PyInt (- 1)" using Cons.prems(2) by simp
        have "best_bank_loop d banks cw 0 (Some bank) s =
          (case find (\<lambda>b. has_room cw d b \<and> isl (bank_score d b (the (cw b)) 0)) banks of
             Some b \<Rightarrow> Inl (projl (bank_score d b (the (cw b)) 0))
           | None \<Rightarrow> Inr (Some bank))"
          using Cons.IH[OF rest, of "Some bank" s] s0 by (simp split: option.split)
        then show ?thesis
          using w r(1) room True Inr s0 bs None by (simp add: py_less_def split: option.split)
      next
        case (Some b0)
        then have bs: "py_val bs = 0" using Cons.prems(2) by simp
        show ?thesis
          using w r(1) room True Inr s0 bs Some Cons.IH[OF rest Cons.prems(2)]
          by (simp add: py_less_def split: option.split)
      qed
    qed
  qed
qed

text \<open>
  Claim C3, as the code has it. When the daily needs of the banks sum to zero,
  \<^verbatim>\<open>need_ratio\<close> is the int 0 and the score of a bank is 0, as a float or as a
  \<^verbatim>\<open>Decimal\<close>, unless computing it raises: the division by a capacity of zero
  does, and so does the bonus \<^verbatim>\<open>score *= 1.2\<close> of a self-pickup bank for a
  donation of more than 50 pounds once the running weight of the bank is a
  \<^verbatim>\<open>Decimal\<close>. Since the best score starts at \<open>-1\<close>, a score of 0 is accepted
  and no later score of 0 replaces it: if no bank with room for the donation
  raises when it is scored, the donation goes to the first bank, in the order
  of the list, that has room for it, and it is left unallocated only when no
  bank has room. Otherwise the search raises the error of the first bank with
  room whose score raises.
\<close>

theorem zero_need_first_fit:
  assumes "sum_list (map (\<lambda>bank. int (daily_average_need_pounds bank)) banks) = 0"
    and "\<forall>b\<in>set banks. cw b \<noteq> None"
  shows "(\<forall>b w. bank_score d b w
                  (sum_list (map (\<lambda>bank. int (daily_average_need_pounds bank)) banks)) =
            (if storage_capacity_pounds b = 0
             then Inl (if is_decimal w \<and> py_val w = 0 then InvalidOperation
                       else ZeroDivisionError)
             else if is_decimal w \<and> can_self_pickup b \<and> 50 < py_val (quantity_pounds d)
             then Inl TypeError
             else Inr (if is_decimal w then PyDecimal 0 else PyFloat 0))) \<and>
         find_best_bank_for_donation d banks cw
             (sum_list (map (\<lambda>bank. int (daily_average_need_pounds bank)) banks)) =
           (case find (\<lambda>b. has_room cw d b \<and> isl (bank_score d b (the (cw b)) 0)) banks of
              Some b \<Rightarrow> Inl (projl (bank_score d b (the (cw b)) 0))
            | None \<Rightarrow> Inr (find (has_room cw d) banks))"
proof -
  have "find_best_bank_for_donation d banks cw 0 =
          (case find (\<lambda>b. has_room cw d b \<and> isl (bank_score d b (the (cw b)) 0)) banks of
              Some b \<Rightarrow> Inl (projl (bank_score d b (the (cw b)) 0))
            | None \<Rightarrow> Inr (find (has_room cw d) banks))"
    unfolding find_best_bank_for_donation_def
    using best_bank_loop_zero_need[OF assms(2), of None "PyInt (- 1)" d]
    by (simp split: option.split)
  then show ?thesis
    unfolding assms(1) by (simp add: bank_score_zero_need)
qed


text \<open>Three banks without need. The first has no room for the donation of 30
  pounds, the second and the third have; the second already holds a \<^verbatim>\<open>Decimal\<close>
  weight. Both are scored 0 and the donation goes to the second, the first
  with room.\<close>

theorem zero_need_first_fit_witness:
  "sum_list (map (\<lambda>bank. int (daily_average_need_pounds bank))
     [full_zero_need_bank, zero_need_bank, other_zero_need_bank]) = 0 \<and>
   map [full_zero_need_bank \<mapsto> PyInt 0, zero_need_bank \<mapsto> PyDecimal 5,
        other_zero_need_bank \<mapsto> PyInt 0]
     [full_zero_need_bank, zero_need_bank, other_zero_need_bank] =
     [Some (PyInt 0), Some (PyDecimal 5), Some (PyInt 0)] \<and>
   map (has_room [full_zero_need_bank \<mapsto> PyInt 0, zero_need_bank \<mapsto> PyDecimal 5,
                  other_zero_need_bank \<mapsto> PyInt 0] example_donation_expiring)
     [full_zero_need_bank, zero_need_bank, other_zero_need_bank] = [False, True, True] \<and>
   bank_score example_donation_expiring zero_need_bank (PyDecimal 5) 0 = Inr (PyDecimal 0) \<and>
   bank_score example_donation_expiring other_zero_need_bank (PyInt 0) 0 = Inr (PyFloat 0) \<and>
   find_best_bank_for_donation example_donation_expiring
     [full_zero_need_bank, zero_need_bank, other_zero_need_bank]
     [full_zero_need_bank \<mapsto> PyInt 0, zero_need_bank \<mapsto> PyDecimal 5,
      other_zero_need_bank \<mapsto> PyInt 0] 0 = Inr (Some zero_need_bank)"
proof -
  let ?banks = "[full_zero_need_bank, zero_need_bank, other_zero_need_bank]"
  let ?cw = "[full_zero_need_bank \<mapsto> PyInt 0, zero_need_bank \<mapsto> PyDecimal 5,
              other_zero_need_bank \<mapsto> PyInt 0]"
  have n: "sum_list (map (\<lambda>bank. int (daily_average_need_pounds bank)) ?banks) = 0"
    by (simp add: zero_need_bank_fields full_zero_need_bank_fields other_zero_need_bank_fields)
  have w: "?cw full_zero_need_bank = Some (PyInt 0)" "?cw zero_need_bank = Some (PyDecimal 5)"
    "?cw other_zero_need_bank = Some (PyInt 0)"
    by (simp_all add: zero_need_banks_distinct)
  have k: "\<forall>b\<in>set ?banks. ?cw b \<noteq> None"
    using w by simp
  have r: "\<not> has_room ?cw example_donation_expiring full_zero_need_bank"
    "has_room ?cw example_donation_expiring zero_need_bank"
    "has_room ?cw example_donation_expiring other_zero_need_bank"
    unfolding has_room_def w
    by (simp_all add: zero_need_bank_fields full_zero_need_bank_fields
          other_zero_need_bank_fields example_donation_expiring_fields)
  have c: "storage_capacity_pounds zero_need_bank \<noteq> 0"
    "storage_capacity_pounds other_zero_need_bank \<noteq> 0"
    "\<not> can_self_pickup zero_need_bank" "\<not> can_self_pickup other_zero_need_bank"
    by (simp_all add: zero_need_bank_fields other_zero_need_bank_fields)
  from zero_need_first_fit[OF n k, of example_donation_expiring]
  have t: "\<And>b w. bank_score example_donation_expiring b w 0 =
            (if storage_capacity_pounds b = 0
             then Inl (if is_decimal w \<and> py_val w = 0 then InvalidOperation
                       else ZeroDivisionError)
             else if is_decimal w \<and> can_self_pickup b \<and>
                     50 < py_val (quantity_pounds example_donation_expiring)
             then Inl TypeError
             else Inr (if is_decimal w then PyDecimal 0 else PyFloat 0))"
    and f: "find_best_bank_for_donation example_donation_expiring ?banks ?cw 0 =
           (case find (\<lambda>b. has_room ?cw example_donation_expiring b \<and>
                            isl (bank_score example_donation_expiring b (the (?cw b)) 0))
                   ?banks of
              Some b \<Rightarrow> Inl (projl (bank_score example_donation_expiring b (the (?cw b)) 0))
            | None \<Rightarrow> Inr (find (has_room ?cw example_donation_expiring) ?banks))"
    unfolding n by blast+
  have s: "bank_score example_donation_expiring zero_need_bank (PyDecimal 5) 0 =
             Inr (PyDecimal 0)"
    "bank_score example_donation_expiring other_zero_need_bank (PyInt 0) 0 = Inr (PyFloat 0)"
    unfolding t using c by simp_all
  have "find_best_bank_for_donation example_donation_expiring ?banks ?cw 0 =
          Inr (Some zero_need_bank)"
    unfolding f using r s w by simp
  with n w r s show ?thesis by simp
qed

text \<open>
  The claim C3 says that no donation is assigned when the needs sum to zero. One
  bank with need 0 and capacity 1000 receives a donation of 30 pounds; of three
  banks without need, the first with room for it does.
\<close>

theorem zero_need_donation_is_allocated:
  "sum_list (map daily_average_need_pounds [zero_need_bank]) = 0 \<and>
   allocate_food_to_banks example_now [example_donation_expiring] [zero_need_bank] =
     Inr [(zero_need_bank, [example_donation_expiring])] \<and>
   sum_list (map daily_average_need_pounds
     [full_zero_need_bank, zero_need_bank, other_zero_need_bank]) = 0 \<and>
   allocate_food_to_banks example_now [example_donation_expiring]
     [full_zero_need_bank, zero_need_bank, other_zero_need_bank] =
     Inr [(full_zero_need_bank, []), (zero_need_bank, [example_donation_expiring]),
          (other_zero_need_bank, [])]"
  by (simp add: allocate_food_to_banks_def sorted_donations_def find_best_bank_for_donation_def
        bank_score_def zero_need_bank_fields full_zero_need_bank_fields
        other_zero_need_bank_fields zero_need_banks_distinct
        example_donation_expiring_fields py_arith)


subsection \<open>Total duration of a plan\<close>

lemma process_pickups_total:
  "snd (snd (process_pickups ps t n)) = n + sum_list (map pickup_duration ps)"
  by (induction ps arbitrary: t n) (simp_all add: Let_def case_prod_beta)

lemma process_pickups_time:
  "fst (snd (process_pickups ps t n)) = t + sum_list (map pickup_duration ps)"
  by (induction ps arbitrary: t n) (simp_all add: Let_def case_prod_beta)

lemma process_deliveries_total:
  "snd (snd (process_deliveries ds t n)) =
     n + sum_list (map (\<lambda>d. travel_time d + delivery_duration d) ds)"
  by (induction ds arbitrary: t n) (simp_all add: Let_def case_prod_beta)

lemma process_deliveries_time:
  "fst (snd (process_deliveries ds t n)) =
     t + sum_list (map (\<lambda>d. travel_time d + delivery_duration d) ds)"
  by (induction ds arbitrary: t n) (simp_all add: Let_def case_prod_beta)

text \<open>What \<^verbatim>\<open>_create_route_plan\<close> adds up in every plan it returns: the dwell
  times of the pickups, and the travel and dwell times of the deliveries.\<close>

lemma create_route_plan_total_duration:
  assumes "create_route_plan reg ps ds target = Inr plan"
  shows "total_duration_minutes plan =
     sum_list (map pickup_duration ps) +
     sum_list (map (\<lambda>d. travel_time d + delivery_duration d) ds)"
proof -
  obtain ps' t1 d1 where p: "process_pickups ps (at_eight target) 0 = (ps', t1, d1)"
    by (cases "process_pickups ps (at_eight target) 0") auto
  obtain ds' t2 d2 where d: "process_deliveries ds t1 d1 = (ds', t2, d2)"
    by (cases "process_deliveries ds t1 d1") auto
  have "d1 = sum_list (map pickup_duration ps)"
    using process_pickups_total[of ps "at_eight target" 0] p by simp
  moreover have "d2 = d1 + sum_list (map (\<lambda>d. travel_time d + delivery_duration d) ds)"
    using process_deliveries_total[of ds t1 d1] d by simp
  moreover have "total_duration_minutes plan = d2"
    using assms p d
    by (auto simp: create_route_plan_def Let_def bind_err_def split: sum.splits)
  ultimately show ?thesis by simp
qed

lemma memory_group: "group_donations_by_store [memory_donation] =
   [(example_store, [memory_donation])]"
  by (simp add: group_donations_by_store_def memory_donation_fields)

lemma five_miles_travel:
  "calculate_travel_time five_miles a s = Inr 17"
  "calculate_travel_time_to_bank five_miles a b = Inr 17"
  by (simp_all add: calculate_travel_time_def calculate_travel_time_to_bank_def five_miles_def
        py_int_def Let_def)

lemma memory_durations:
  "estimate_pickup_duration [memory_donation] = Inr 22"
  "estimate_delivery_duration [memory_donation] = Inr 44"
  by (simp_all add: estimate_pickup_duration_def estimate_delivery_duration_def py_int_def
        memory_donation_fields py_arith Let_def)

lemma memory_pickup_sequence:
  "optimize_pickup_sequence five_miles example_region example_now
     [(example_store, [memory_donation])] =
   Inr [\<lparr>store = example_store, pickup_donations = [memory_donation],
         arrival_time = at_eight 20001 + 17, pickup_duration = 22,
         pickup_total_weight = PyFloat 20, pickup_estimated_arrival = None\<rparr>]"
  apply (simp add: optimize_pickup_sequence_def)
  apply (subst pickup_loop.simps)
  apply (simp add: find_nearest_store_def five_miles_def[of "region_center example_region"]
      five_miles_travel memory_durations memory_donation_fields py_arith
      at_eight_def date_of_def example_now_def del: pickup_loop.simps)
  done

lemma memory_allocation:
  "allocate_food_to_banks example_now [memory_donation] [example_bank] =
     Inr [(example_bank, [memory_donation])]"
  by (simp add: allocate_food_to_banks_def sorted_donations_def find_best_bank_for_donation_def
        bank_score_def example_bank_fields memory_donation_fields py_arith)

lemma memory_delivery_sequence:
  "optimize_delivery_sequence five_miles example_region [(example_bank, [memory_donation])] =
   Inr [\<lparr>food_bank = example_bank, delivery_donations = [memory_donation],
         travel_time = 17, delivery_duration = 44, delivery_total_weight = PyFloat 20,
         delivery_estimated_arrival = None\<rparr>]"
  apply (simp add: optimize_delivery_sequence_def)
  apply (subst delivery_loop.simps)
  apply (simp add: find_nearest_bank_def five_miles_def[of "region_center example_region"]
      five_miles_travel memory_durations memory_donation_fields py_arith
      del: delivery_loop.simps)
  done

lemma example_efficiency_score:
  assumes "pickup_total_weight p = PyFloat 20" "pickup_duration p = 22"
    "delivery_duration dl = 44"
  shows "calculate_efficiency_score example_region [p] [dl] = Inr (PyFloat 38.6)"
proof -
  have r: "round_half_even (773 / 2) = 386"
  proof -
    have "\<lfloor>773 / 2 :: real\<rfloor> = 386" by linarith
    then show ?thesis by (simp add: round_half_even_def)
  qed
  show ?thesis
    by (simp add: calculate_efficiency_score_def py_arith max_duration_hours_def
          example_region_def Let_def r assms)
qed

text \<open>
  Claim C1 on a route with one store and one bank, every leg five miles long
  (17 minutes), for a donation of 20 pounds held in memory (a float weight).
  The truck reaches the store at 8:17 (\<^verbatim>\<open>arrival_time\<close>), loads for 22 minutes,
  drives 17 minutes to the bank and unloads for 44 minutes: 100 minutes of
  dwell and travel. The plan that \<^verbatim>\<open>_create_route_plan\<close> makes of these two
  sequences reports 83 minutes and a completion at 9:23: the 17 minutes to the
  store are in neither, since the loop over the pickups adds
  \<^verbatim>\<open>pickup_duration\<close> only, while the loop over the deliveries adds
  \<^verbatim>\<open>travel_time + delivery_duration\<close>. \<^verbatim>\<open>optimize_route\<close> returns this plan.
\<close>

theorem optimize_route_example:
  "calculate_travel_time five_miles (region_center example_region) example_store = Inr 17 \<and>
   optimize_pickup_sequence five_miles example_region example_now
     [(example_store, [memory_donation])] =
     Inr [\<lparr>store = example_store, pickup_donations = [memory_donation],
           arrival_time = at_eight 20001 + 17, pickup_duration = 22,
           pickup_total_weight = PyFloat 20, pickup_estimated_arrival = None\<rparr>] \<and>
   create_route_plan example_region
     [\<lparr>store = example_store, pickup_donations = [memory_donation],
       arrival_time = at_eight 20001 + 17, pickup_duration = 22,
       pickup_total_weight = PyFloat 20, pickup_estimated_arrival = None\<rparr>]
     [\<lparr>food_bank = example_bank, delivery_donations = [memory_donation],
       travel_time = 17, delivery_duration = 44, delivery_total_weight = PyFloat 20,
       delivery_estimated_arrival = None\<rparr>] 20001 =
   Inr \<lparr>target_date = 20001,
        pickup_sequence =
          [\<lparr>store = example_store, pickup_donations = [memory_donation],
            arrival_time = at_eight 20001 + 17, pickup_duration = 22,
            pickup_total_weight = PyFloat 20,
            pickup_estimated_arrival = Some (at_eight 20001)\<rparr>],
        delivery_sequence =
          [\<lparr>food_bank = example_bank, delivery_donations = [memory_donation],
            travel_time = 17, delivery_duration = 44, delivery_total_weight = PyFloat 20,
            delivery_estimated_arrival = Some (at_eight 20001 + 22 + 17)\<rparr>],
        total_weight_pounds = PyFloat 20,
        total_duration_minutes = 83,
        estimated_completion_time = at_eight 20001 + 83,
        within_capacity = True,
        within_time_limit = True,
        efficiency_score = PyFloat 38.6\<rparr> \<and>
   optimize_route five_miles example_region [example_bank] example_now [memory_donation] None =
     create_route_plan example_region
       [\<lparr>store = example_store, pickup_donations = [memory_donation],
         arrival_time = at_eight 20001 + 17, pickup_duration = 22,
         pickup_total_weight = PyFloat 20, pickup_estimated_arrival = None\<rparr>]
       [\<lparr>food_bank = example_bank, delivery_donations = [memory_donation],
         travel_time = 17, delivery_duration = 44, delivery_total_weight = PyFloat 20,
         delivery_estimated_arrival = None\<rparr>] 20001"
proof (intro conjI)
  have cap: "truck_capacity_pounds example_region = 2000"
    by (simp add: example_region_def)
  have day: "date_of (example_now + 1440) = 20001"
    by (simp add: date_of_def example_now_def)
  show "calculate_travel_time five_miles (region_center example_region) example_store = Inr 17"
    by (rule five_miles_travel)
  show "optimize_pickup_sequence five_miles example_region example_now
     [(example_store, [memory_donation])] =
     Inr [\<lparr>store = example_store, pickup_donations = [memory_donation],
           arrival_time = at_eight 20001 + 17, pickup_duration = 22,
           pickup_total_weight = PyFloat 20, pickup_estimated_arrival = None\<rparr>]"
    by (rule memory_pickup_sequence)
  show "create_route_plan example_region
     [\<lparr>store = example_store, pickup_donations = [memory_donation],
       arrival_time = at_eight 20001 + 17, pickup_duration = 22,
       pickup_total_weight = PyFloat 20, pickup_estimated_arrival = None\<rparr>]
     [\<lparr>food_bank = example_bank, delivery_donations = [memory_donation],
       travel_time = 17, delivery_duration = 44, delivery_total_weight = PyFloat 20,
       delivery_estimated_arrival = None\<rparr>] 20001 =
   Inr \<lparr>target_date = 20001,
        pickup_sequence =
          [\<lparr>store = example_store, pickup_donations = [memory_donation],
            arrival_time = at_eight 20001 + 17, pickup_duration = 22,
            pickup_total_weight = PyFloat 20,
            pickup_estimated_arrival = Some (at_eight 20001)\<rparr>],
        delivery_sequence =
          [\<lparr>food_bank = example_bank, delivery_donations = [memory_donation],
            travel_time = 17, delivery_duration = 44, delivery_total_weight = PyFloat 20,
            delivery_estimated_arrival = Some (at_eight 20001 + 22 + 17)\<rparr>],
        total_weight_pounds = PyFloat 20,
        total_duration_minutes = 83,
        estimated_completion_time = at_eight 20001 + 83,
        within_capacity = True,
        within_time_limit = True,
        efficiency_score = PyFloat 38.6\<rparr>"
    by (simp add: create_route_plan_def example_efficiency_score py_arith
          max_duration_hours_def cap Let_def)
  show "optimize_route five_miles example_region [example_bank] example_now [memory_donation]
          None =
     create_route_plan example_region
       [\<lparr>store = example_store, pickup_donations = [memory_donation],
         arrival_time = at_eight 20001 + 17, pickup_duration = 22,
         pickup_total_weight = PyFloat 20, pickup_estimated_arrival = None\<rparr>]
       [\<lparr>food_bank = example_bank, delivery_donations = [memory_donation],
         travel_time = 17, delivery_duration = 44, delivery_total_weight = PyFloat 20,
         delivery_estimated_arrival = None\<rparr>] 20001"
    by (simp add: optimize_route_def memory_group memory_pickup_sequence memory_allocation
          memory_delivery_sequence example_bank_fields day Let_def
          del: process_pickups.simps process_deliveries.simps)
qed


subsection \<open>Weights read from the database\<close>

text \<open>
  Claim C2 on two donations read from the database (20 and 30 pounds, as
  \<^verbatim>\<open>Decimal\<close>s) and one bank with a daily need of 500 pounds and room for 1000.
  The donation of 30 pounds is sorted first and goes to the bank, whose running
  weight becomes \<^verbatim>\<open>Decimal('30')\<close>. Scoring the bank for the donation of 20
  pounds then multiplies the float \<^verbatim>\<open>need_ratio\<close> by the \<^verbatim>\<open>Decimal\<close>
  \<^verbatim>\<open>1 - capacity_utilization\<close> and raises \<^verbatim>\<open>TypeError\<close>: the allocation returns
  no buckets at all. Each of the two donations alone is allocated.
\<close>

theorem allocate_food_to_banks_decimal_weights:
  "map quantity_pounds [example_donation_sell_by, example_donation_expiring] =
     [PyDecimal 20, PyDecimal 30] \<and>
   sum_list (map daily_average_need_pounds [example_bank]) = 500 \<and>
   sum_list (map storage_capacity_pounds [example_bank]) = 1000 \<and>
   sorted_donations example_now [example_donation_sell_by, example_donation_expiring] =
     [example_donation_expiring, example_donation_sell_by] \<and>
   allocate_food_to_banks example_now [example_donation_expiring] [example_bank] =
     Inr [(example_bank, [example_donation_expiring])] \<and>
   allocate_food_to_banks example_now [example_donation_sell_by] [example_bank] =
     Inr [(example_bank, [example_donation_sell_by])] \<and>
   bank_score example_donation_sell_by example_bank (PyDecimal 30) 500 = Inl TypeError \<and>
   allocate_food_to_banks example_now [example_donation_sell_by, example_donation_expiring]
     [example_bank] = Inl TypeError"
proof -
  have s: "sorted_donations example_now [example_donation_sell_by, example_donation_expiring] =
     [example_donation_expiring, example_donation_sell_by]"
    by (simp add: sorted_donations_def urgency_examples)
  have b: "bank_score example_donation_sell_by example_bank (PyDecimal 30) 500 = Inl TypeError"
    by (simp add: bank_score_def example_bank_fields py_arith)
  have b0: "bank_score d example_bank (PyInt 0) 500 = Inr (PyFloat 1)" for d
    by (simp add: bank_score_def example_bank_fields py_arith)
  have one: "allocate_food_to_banks example_now [d] [example_bank] = Inr [(example_bank, [d])]"
    if "quantity_pounds d = PyDecimal x" "x \<le> 1000" for d x
    using that
    by (simp add: allocate_food_to_banks_def sorted_donations_def
          find_best_bank_for_donation_def b0 example_bank_fields py_arith)
  have two: "allocate_food_to_banks example_now
       [example_donation_sell_by, example_donation_expiring] [example_bank] = Inl TypeError"
    by (simp add: allocate_food_to_banks_def s find_best_bank_for_donation_def b0 b
          example_bank_fields example_donation_sell_by_fields
          example_donation_expiring_fields py_arith)
  show ?thesis
    using s b two
      one[of example_donation_expiring 30] one[of example_donation_sell_by 20]
    by (simp add: example_bank_fields example_donation_sell_by_fields
          example_donation_expiring_fields)
qed

text \<open>
  Claim C5 on one donation read from the database (20 pounds, as a
  \<^verbatim>\<open>Decimal\<close>). Both dwell-time estimates multiply the summed weight by a float
  and raise \<^verbatim>\<open>TypeError\<close>, so neither the pickup run over the one store nor the
  delivery run over the one bank returns a sequence. Without stops both runs
  return the empty sequence.
\<close>

theorem sequence_planner_decimal_weights:
  "quantity_pounds example_donation_sell_by = PyDecimal 20 \<and>
   estimate_pickup_duration [example_donation_sell_by] = Inl TypeError \<and>
   estimate_delivery_duration [example_donation_sell_by] = Inl TypeError \<and>
   optimize_pickup_sequence five_miles example_region example_now
     [(example_store, [example_donation_sell_by])] = Inl TypeError \<and>
   optimize_delivery_sequence five_miles example_region
     [(example_bank, [example_donation_sell_by])] = Inl TypeError \<and>
   optimize_pickup_sequence five_miles example_region example_now [] = Inr [] \<and>
   optimize_delivery_sequence five_miles example_region [] = Inr []"
proof -
  have e: "estimate_pickup_duration [example_donation_sell_by] = Inl TypeError"
    "estimate_delivery_duration [example_donation_sell_by] = Inl TypeError"
    by (simp_all add: estimate_pickup_duration_def estimate_delivery_duration_def
          example_donation_sell_by_fields py_arith Let_def)
  have p: "optimize_pickup_sequence five_miles example_region example_now
     [(example_store, [example_donation_sell_by])] = Inl TypeError"
    apply (simp add: optimize_pickup_sequence_def)
    apply (subst pickup_loop.simps)
    apply (simp add: find_nearest_store_def five_miles_def[of "region_center example_region"]
        five_miles_travel e del: pickup_loop.simps)
    done
  have d: "optimize_delivery_sequence five_miles example_region
     [(example_bank, [example_donation_sell_by])] = Inl TypeError"
    apply (simp add: optimize_delivery_sequence_def)
    apply (subst delivery_loop.simps)
    apply (simp add: find_nearest_bank_def five_miles_def[of "region_center example_region"]
        five_miles_travel e del: delivery_loop.simps)
    done
  have n: "optimize_pickup_sequence five_miles example_region example_now [] = Inr []"
    "optimize_delivery_sequence five_miles example_region [] = Inr []"
    by (simp_all add: optimize_pickup_sequence_def optimize_delivery_sequence_def)
  show ?thesis
    using e p d n by (simp add: example_donation_sell_by_fields)
qed

end
